theory Spec2Isabelle
  imports Main
begin

section \<open>Django data model (myapp/models.py)\<close>

text \<open>
  The three Django variants (ariadne, graphene, strawberry) share one relational model.
  A \<open>User\<close> row carries \<open>id\<close>, \<open>username\<close> and \<open>email\<close>; the attribute \<open>email\<close> is a
  Python value that is either \<open>None\<close> or a \<open>str\<close>. A \<open>Review\<close> row carries its primary key,
  the foreign key \<open>business_id\<close>, the related \<open>user\<close> (loaded with \<open>select_related\<close>),
  \<open>rating\<close> and \<open>comment\<close>.
\<close>

record django_user =
  user_id :: int
  username :: string
  email :: "string option"

record django_review =
  review_id :: int
  business_id :: int
  user :: django_user
  rating :: int
  comment :: string

section \<open>Python built-ins used by the resolvers and batch functions\<close>

text \<open>Truthiness of a value that is \<open>None\<close> or a \<open>str\<close>: \<open>None\<close> and \<open>""\<close> are falsy.\<close>

fun truthy :: "string option \<Rightarrow> bool" where
  "truthy None = False"
| "truthy (Some s) = (s \<noteq> [])"

text \<open>\<open>a or b\<close> evaluates to \<open>a\<close> when \<open>a\<close> is truthy and to \<open>b\<close> otherwise.\<close>

definition py_or :: "string option \<Rightarrow> string option \<Rightarrow> string option" where
  "py_or a b = (if truthy a then a else b)"

text \<open>
  \<open>d[k].append(v)\<close> on a \<open>defaultdict(list)\<close>: a missing key is first bound to a new empty
  list, then \<open>v\<close> is appended to the list bound to \<open>k\<close>.
\<close>

definition defaultdict_append :: "('k \<rightharpoonup> 'v list) \<Rightarrow> 'k \<Rightarrow> 'v \<Rightarrow> ('k \<rightharpoonup> 'v list)" where
  "defaultdict_append d k v = d(k \<mapsto> (case d k of None \<Rightarrow> [] | Some xs \<Rightarrow> xs) @ [v])"

text \<open>\<open>d[k] = v\<close> on a \<open>dict\<close>.\<close>

definition dict_setitem :: "('k \<rightharpoonup> 'v) \<Rightarrow> 'k \<Rightarrow> 'v \<Rightarrow> ('k \<rightharpoonup> 'v)" where
  "dict_setitem d k v = d(k \<mapsto> v)"

text \<open>
  \<open>d.get(k, default)\<close> never raises and never calls the default factory of a
  \<open>defaultdict\<close>; \<open>d.get(k)\<close> is \<open>d.get(k, None)\<close>, so its result is an optional value.
\<close>

definition dict_get :: "('k \<rightharpoonup> 'v) \<Rightarrow> 'k \<Rightarrow> 'v \<Rightarrow> 'v" where
  "dict_get d k dflt = (case d k of None \<Rightarrow> dflt | Some v \<Rightarrow> v)"

text \<open>\<open>dict(d)\<close> copies the bindings of \<open>d\<close> into a plain dictionary.\<close>

definition dict_of :: "('k \<rightharpoonup> 'v) \<Rightarrow> ('k \<rightharpoonup> 'v)" where
  "dict_of d = d"

definition dict_get_none :: "('k \<rightharpoonup> 'v) \<Rightarrow> 'k \<Rightarrow> 'v option" where
  "dict_get_none d k = d k"

section \<open>ariadne/main/schema.py\<close>

text \<open>\<open>resolve_user_email\<close>: \<open>return user.email or ""\<close>.\<close>

definition resolve_user_email :: "django_user \<Rightarrow> string option" where
  "resolve_user_email u = py_or (email u) (Some [])"

text \<open>
  The batch functions reach the database through one ORM query each
  (\<open>Review.objects.filter(business_id__in=keys)\<close>,
  \<open>Review.objects.filter(id__in=keys).select_related("user")\<close>). The ORM is an external
  collaborator: the query is a parameter \<open>query\<close> that maps the key list to the rows the
  backend returns, in the order it returns them. Nothing is assumed about which rows those
  are.
\<close>

definition ariadne_get_reviews_for_businesses ::
  "(int list \<Rightarrow> django_review list) \<Rightarrow> int list \<Rightarrow> django_review list list" where
  "ariadne_get_reviews_for_businesses query business_ids =
     (let reviews_by_business_id =
            foldl (\<lambda>d review. defaultdict_append d (business_id review) review)
              Map.empty (query business_ids);
          reviews_by_business_id = dict_of reviews_by_business_id
      in map (\<lambda>business_id. dict_get reviews_by_business_id business_id []) business_ids)"

definition ariadne_get_authors_for_reviews ::
  "(int list \<Rightarrow> django_review list) \<Rightarrow> int list \<Rightarrow> django_user option list" where
  "ariadne_get_authors_for_reviews query review_ids =
     (let authors_by_review_id =
            foldl (\<lambda>d review. dict_setitem d (review_id review) (user review))
              Map.empty (query review_ids)
      in map (\<lambda>review_id. dict_get_none authors_by_review_id review_id) review_ids)"

section \<open>graphene/main/schema.py\<close>

text \<open>
  \<open>review_author_data_loader\<close> builds its dictionary with a comprehension
  \<open>{r.id: r.user for r in reviews}\<close>, which binds the keys in iteration order, a later
  binding replacing an earlier one.
\<close>

definition graphene_review_author_data_loader ::
  "(int list \<Rightarrow> django_review list) \<Rightarrow> int list \<Rightarrow> django_user option list" where
  "graphene_review_author_data_loader query keys =
     (let reviews = query keys;
          review_author_by_review_id =
            foldl (\<lambda>d r. dict_setitem d (review_id r) (user r)) Map.empty reviews
      in map (\<lambda>pk. dict_get_none review_author_by_review_id pk) keys)"

definition graphene_business_review_data_loader ::
  "(int list \<Rightarrow> django_review list) \<Rightarrow> int list \<Rightarrow> django_review list list" where
  "graphene_business_review_data_loader query keys =
     (let reviews = query keys;
          review_by_business_id =
            foldl (\<lambda>d r. defaultdict_append d (business_id r) r) Map.empty reviews
      in map (\<lambda>pk. dict_get review_by_business_id pk []) keys)"

section \<open>strawberry/main/schema.py\<close>

definition strawberry_dataloader_business_reviews ::
  "(int list \<Rightarrow> django_review list) \<Rightarrow> int list \<Rightarrow> django_review list list" where
  "strawberry_dataloader_business_reviews query keys =
     (let reviews = query keys;
          review_by_business_id =
            foldl (\<lambda>d r. defaultdict_append d (business_id r) r) Map.empty reviews
      in map (\<lambda>pk. dict_get review_by_business_id pk []) keys)"

definition strawberry_dataloader_review_author ::
  "(int list \<Rightarrow> django_review list) \<Rightarrow> int list \<Rightarrow> django_user option list" where
  "strawberry_dataloader_review_author query keys =
     (let author_by_review_id =
            foldl (\<lambda>d r. dict_setitem d (review_id r) (user r)) Map.empty (query keys)
      in map (\<lambda>key. dict_get_none author_by_review_id key) keys)"

section \<open>graphdb/myapp/services/neo4j.py\<close>

subsection \<open>Values of the Neo4j driver\<close>

text \<open>
  A property value is a string, an integer, \<open>None\<close> or a list of property values; the
  other scalar types of the driver behave like integers in the code under study. A graph
  entity is a \<open>Node\<close> or a \<open>Relationship\<close>; both carry an element id and a property
  dictionary read with \<open>entity[key]\<close>, and a relationship also carries its start and end
  node, each of which the driver may leave as \<open>None\<close>. A record of a query result binds
  the variables of the \<open>RETURN\<close> clause to entities.
\<close>

datatype pval = PStr string | PInt int | PNone | PList "pval list"

text \<open>A list cannot be hashed, so it cannot be the key of a dictionary.\<close>

fun hashable :: "pval \<Rightarrow> bool" where
  "hashable (PList vs) = False"
| "hashable v = True"

datatype entity =
  Node string "string \<rightharpoonup> pval"
| Relationship string "string \<rightharpoonup> pval" "entity option" "entity option"

type_synonym neo_record = "string \<rightharpoonup> entity"

datatype param = ParamProp pval | ParamStrs "string list"

type_synonym params = "(string \<times> param) list"

text \<open>The exceptions the code under study can raise.\<close>

datatype py_error =
  KeyError string
| TypeError
| AttributeError string
| AssertionError

text \<open>
  A computation that may raise is a value of \<open>py_error + 'a\<close>; \<open>ebind m f\<close> runs \<open>f\<close> on
  the result of \<open>m\<close> unless \<open>m\<close> raised, in which case the exception propagates.
\<close>

definition ebind :: "py_error + 'a \<Rightarrow> ('a \<Rightarrow> py_error + 'b) \<Rightarrow> py_error + 'b" where
  "ebind m f = (case m of Inl err \<Rightarrow> Inl err | Inr x \<Rightarrow> f x)"

fun element_id :: "entity \<Rightarrow> string" where
  "element_id (Node i ps) = i"
| "element_id (Relationship i ps s e) = i"

text \<open>
  \<open>entity[key]\<close> is the property under \<open>key\<close>, and \<open>None\<close> for a property the entity
  does not have: the driver's entities answer a subscript with \<open>get\<close> on their property
  dictionary and never raise.
\<close>

fun entity_getitem :: "entity \<Rightarrow> string \<Rightarrow> pval" where
  "entity_getitem (Node i ps) k = (case ps k of None \<Rightarrow> PNone | Some v \<Rightarrow> v)"
| "entity_getitem (Relationship i ps s e) k = (case ps k of None \<Rightarrow> PNone | Some v \<Rightarrow> v)"

text \<open>Only a relationship has the attributes \<open>start_node\<close> and \<open>end_node\<close>.\<close>

fun start_node :: "entity \<Rightarrow> py_error + entity option" where
  "start_node (Node i ps) = Inl (AttributeError ''start_node'')"
| "start_node (Relationship i ps s e) = Inr s"

fun end_node :: "entity \<Rightarrow> py_error + entity option" where
  "end_node (Node i ps) = Inl (AttributeError ''end_node'')"
| "end_node (Relationship i ps s e) = Inr e"

text \<open>\<open>record[key]\<close> on a result record raises \<open>KeyError\<close> for a variable it does not bind.\<close>

definition record_getitem :: "neo_record \<Rightarrow> string \<Rightarrow> py_error + entity" where
  "record_getitem r k = (case r k of None \<Rightarrow> Inl (KeyError k) | Some v \<Rightarrow> Inr v)"

subsection \<open>The dataclasses \<open>Business\<close>, \<open>User\<close>, \<open>Review\<close>, \<open>Category\<close>\<close>

text \<open>
  The dataclass fields hold whatever the node properties hold; the annotations
  (\<open>str\<close>, \<open>int\<close>) are not checked at run time.
\<close>

record neo_business =
  b_id :: pval
  b_name :: pval
  b_description :: pval

record neo_user =
  u_id :: pval
  u_name :: pval
  u_email :: pval

record neo_review =
  r_id :: string
  r_rating :: pval
  r_comment :: pval
  r_author :: neo_user
  r_business :: neo_business

record neo_category =
  c_name :: pval
  c_description :: pval

text \<open>
  \<open>from_node\<close> subscripts its argument three times; subscripting \<open>None\<close> raises
  \<open>TypeError\<close>, and a node that lacks a property gives a field that is \<open>None\<close>.
\<close>

fun Business_from_node :: "entity option \<Rightarrow> py_error + neo_business" where
  "Business_from_node None = Inl TypeError"
| "Business_from_node (Some node) =
     Inr \<lparr>b_id = entity_getitem node ''externalID'',
          b_name = entity_getitem node ''name'',
          b_description = entity_getitem node ''description''\<rparr>"

fun User_from_node :: "entity option \<Rightarrow> py_error + neo_user" where
  "User_from_node None = Inl TypeError"
| "User_from_node (Some node) =
     Inr \<lparr>u_id = entity_getitem node ''externalID'',
          u_name = entity_getitem node ''name'',
          u_email = entity_getitem node ''email''\<rparr>"

text \<open>
  \<open>Review.from_relationship\<close> evaluates its keyword arguments left to right:
  \<open>element_id\<close>, \<open>["rating"]\<close>, \<open>["comment"]\<close>, \<open>User.from_node(start_node)\<close>,
  \<open>Business.from_node(end_node)\<close>. The first three cannot raise; the attribute
  \<open>start_node\<close> raises for an entity that is not a relationship.
\<close>

definition Review_from_relationship :: "entity \<Rightarrow> py_error + neo_review" where
  "Review_from_relationship relationship =
     (let i = element_id relationship;
          rt = entity_getitem relationship ''rating'';
          cm = entity_getitem relationship ''comment'' in
      ebind (start_node relationship) (\<lambda>s.
      ebind (User_from_node s) (\<lambda>author.
      ebind (end_node relationship) (\<lambda>e.
      ebind (Business_from_node e) (\<lambda>business.
      Inr \<lparr>r_id = i, r_rating = rt, r_comment = cm,
           r_author = author, r_business = business\<rparr>)))))"

subsection \<open>\<open>Neo4jService\<close>\<close>

text \<open>
  The driver is an external collaborator. What the code needs from it is the result that
  \<open>tx.run(query, parameters=params)\<close> yields inside \<open>session.execute_read\<close> and
  \<open>session.execute_write\<close>: the records, in the order the database returns them. A
  service owns one driver; two services differ when their drivers answer differently.
\<close>

record neo4j_driver =
  read_tx_run :: "string \<Rightarrow> params option \<Rightarrow> neo_record list"
  write_tx_run :: "string \<Rightarrow> params option \<Rightarrow> neo_record list"

record neo4j_service =
  driver :: neo4j_driver

text \<open>
  Running a query on a service is an effect, also when the answer is thrown away as in
  \<open>upsert_business_category\<close>. Every function that reaches a service therefore returns,
  beside its outcome, the calls it made: on which service, in a read or a write
  transaction, with which query and parameters.
\<close>

datatype transaction = ExecuteRead | ExecuteWrite

record service_call =
  target :: neo4j_service
  transaction :: transaction
  statement :: string
  arguments :: "params option"

text \<open>
  \<open>session_read\<close> and \<open>session_write\<close> open a session on the driver of \<open>self\<close>, run the
  query once and hand the result to \<open>result_consumer\<close> when one is given. The consumers of
  the DAO assign to a \<open>nonlocal\<close> variable of the calling method; that variable is the
  state \<open>st\<close> threaded through the consumer.
\<close>

definition session_read ::
  "neo4j_service \<Rightarrow> string \<Rightarrow> (neo_record list \<Rightarrow> 's \<Rightarrow> py_error + 's) option
     \<Rightarrow> params option \<Rightarrow> 's \<Rightarrow> (py_error + 's) \<times> service_call list" where
  "session_read self query result_consumer ps st =
     ((case result_consumer of
         Some consume \<Rightarrow> consume (read_tx_run (driver self) query ps) st
       | None \<Rightarrow> Inr st),
      [\<lparr>target = self, transaction = ExecuteRead, statement = query, arguments = ps\<rparr>])"

definition session_write ::
  "neo4j_service \<Rightarrow> string \<Rightarrow> (neo_record list \<Rightarrow> 's \<Rightarrow> py_error + 's) option
     \<Rightarrow> params option \<Rightarrow> 's \<Rightarrow> (py_error + 's) \<times> service_call list" where
  "session_write self query result_consumer ps st =
     ((case result_consumer of
         Some consume \<Rightarrow> consume (write_tx_run (driver self) query ps) st
       | None \<Rightarrow> Inr st),
      [\<lparr>target = self, transaction = ExecuteWrite, statement = query, arguments = ps\<rparr>])"

text \<open>What a method does with the outcome of its call, the calls staying as they are.\<close>

definition and_then ::
  "(py_error + 'a) \<times> service_call list \<Rightarrow> ('a \<Rightarrow> py_error + 'b)
     \<Rightarrow> (py_error + 'b) \<times> service_call list" where
  "and_then r f = (ebind (fst r) f, snd r)"

text \<open>
  \<open>result.single()\<close> is the first record, or \<open>None\<close> when there is none; subscripting
  \<open>None\<close> raises \<open>TypeError\<close>.
\<close>

fun single :: "neo_record list \<Rightarrow> neo_record option" where
  "single [] = None"
| "single (r # rs) = Some r"

fun single_getitem :: "neo_record option \<Rightarrow> string \<Rightarrow> py_error + entity" where
  "single_getitem None k = Inl TypeError"
| "single_getitem (Some r) k = record_getitem r k"

text \<open>\<open>assert x\<close> for an optional dataclass instance: only \<open>None\<close> is falsy.\<close>

fun assert_set :: "'a option \<Rightarrow> py_error + 'a" where
  "assert_set None = Inl AssertionError"
| "assert_set (Some x) = Inr x"

text \<open>A \<open>for\<close> loop whose body may raise: the first exception ends the loop.\<close>

fun efoldl :: "('s \<Rightarrow> 'a \<Rightarrow> py_error + 's) \<Rightarrow> 's \<Rightarrow> 'a list \<Rightarrow> py_error + 's" where
  "efoldl f st [] = Inr st"
| "efoldl f st (x # xs) = ebind (f st x) (\<lambda>st'. efoldl f st' xs)"

subsection \<open>\<open>Neo4jDAO\<close>\<close>

record neo4j_dao =
  service :: neo4j_service

text \<open>
  \<open>__init__\<close>: \<open>self.service = service or NEO4JSERVICE\<close>. A \<open>Neo4jService\<close> defines neither
  \<open>__bool__\<close> nor \<open>__len__\<close>, so an instance is truthy and only the default \<open>None\<close> selects
  the module-level singleton. The singleton is ambient state of the module; it is the
  first argument here.
\<close>

definition Neo4jDAO :: "neo4j_service \<Rightarrow> neo4j_service option \<Rightarrow> neo4j_dao" where
  "Neo4jDAO NEO4JSERVICE svc =
     \<lparr>service = (case svc of Some s \<Rightarrow> s | None \<Rightarrow> NEO4JSERVICE)\<rparr>"

text \<open>
  \<open>upsert_user\<close> takes a Django user; \<open>get_full_name\<close> (a method of Django's user model)
  and \<open>str\<close> (the decimal rendering of the primary key) are parameters.
\<close>

definition email_param :: "string option \<Rightarrow> pval" where
  "email_param e = (case e of None \<Rightarrow> PNone | Some a \<Rightarrow> PStr a)"

definition upsert_user ::
  "(django_user \<Rightarrow> string) \<Rightarrow> (int \<Rightarrow> string) \<Rightarrow> neo4j_dao \<Rightarrow> django_user
     \<Rightarrow> (py_error + neo_user) \<times> service_call list" where
  "upsert_user get_full_name str self usr =
     and_then
       (session_write (service self)
          ''MERGE (u:User {externalID: $externalID}) ON CREATE SET u.name = $name, u.email = $email RETURN u''
          (Some (\<lambda>result neo4j_user.
             ebind (single_getitem (single result) ''u'') (\<lambda>node.
             ebind (User_from_node (Some node)) (\<lambda>u. Inr (Some u)))))
          (Some [(''name'', ParamProp (PStr (get_full_name usr))),
                 (''email'', ParamProp (email_param (email usr))),
                 (''externalID'', ParamProp (PStr (str (user_id usr))))])
          None)
       assert_set"

definition upsert_business ::
  "neo4j_dao \<Rightarrow> string \<Rightarrow> string \<Rightarrow> string
     \<Rightarrow> (py_error + neo_business) \<times> service_call list" where
  "upsert_business self external_id name description =
     and_then
       (session_write (service self)
          (''MERGE (b:Business {externalID: $externalID}) ''
           @ ''ON CREATE SET b.name = $name, b.description = $description ''
           @ ''RETURN b'')
          (Some (\<lambda>result business.
             ebind (single_getitem (single result) ''b'') (\<lambda>node.
             ebind (Business_from_node (Some node)) (\<lambda>b. Inr (Some b)))))
          (Some [(''externalID'', ParamProp (PStr external_id)),
                 (''name'', ParamProp (PStr name)),
                 (''description'', ParamProp (PStr description))])
          None)
       assert_set"

definition upsert_category ::
  "neo4j_dao \<Rightarrow> string \<Rightarrow> string \<Rightarrow> (py_error + neo_category) \<times> service_call list" where
  "upsert_category self name description =
     and_then
       (session_write (service self)
          (''MERGE (c:Category {name: $name}) ''
           @ ''ON CREATE SET c.description = $description ''
           @ ''RETURN c'')
          (Some (\<lambda>result category.
             ebind (single_getitem (single result) ''c'') (\<lambda>category_node.
             Inr (Some \<lparr>c_name = entity_getitem category_node ''name'',
                        c_description = entity_getitem category_node ''description''\<rparr>))))
          (Some [(''name'', ParamProp (PStr name)),
                 (''description'', ParamProp (PStr description))])
          None)
       assert_set"

definition upsert_business_category ::
  "neo4j_dao \<Rightarrow> neo_business \<Rightarrow> neo_category
     \<Rightarrow> (py_error + unit) \<times> service_call list" where
  "upsert_business_category self business category =
     session_write (service self)
       (''MATCH (b:Business {externalID: $businessID}), (c:Category {name: $categoryName}) ''
        @ ''MERGE (b)-[:IN_CATEGORY]->(c)'')
       None
       (Some [(''businessID'', ParamProp (b_id business)),
              (''categoryName'', ParamProp (c_name category))])
       ()"

definition upsert_review ::
  "neo4j_dao \<Rightarrow> neo_business \<Rightarrow> neo_user \<Rightarrow> int \<Rightarrow> string
     \<Rightarrow> (py_error + neo_review) \<times> service_call list" where
  "upsert_review self business author rating' comment' =
     and_then
       (session_write (service self)
          (''MATCH (b:Business {externalID: $businessID}), (u:User {externalID: $authorID}) ''
           @ ''MERGE (u)-[r:REVIEWED]->(b) ''
           @ ''ON CREATE SET r.rating = $rating, r.comment = $comment ''
           @ ''RETURN r, u'')
          (Some (\<lambda>result review.
             ebind (single_getitem (single result) ''r'') (\<lambda>review_relationship.
             ebind (Review_from_relationship review_relationship) (\<lambda>rv. Inr (Some rv)))))
          (Some [(''businessID'', ParamProp (b_id business)),
                 (''authorID'', ParamProp (u_id author)),
                 (''rating'', ParamProp (PInt rating')),
                 (''comment'', ParamProp (PStr comment'))])
          None)
       assert_set"

text \<open>
  \<open>get_businesses\<close>: the consumer builds the whole list with a comprehension and then
  extends \<open>businesses\<close> with it.
\<close>

definition get_businesses ::
  "neo4j_dao \<Rightarrow> (py_error + neo_business list) \<times> service_call list" where
  "get_businesses self =
     session_read (service self)
       ''MATCH (b:Business) RETURN b''
       (Some (\<lambda>records businesses.
          ebind
            (efoldl (\<lambda>acc r.
               ebind (record_getitem r ''b'') (\<lambda>node.
               ebind (Business_from_node (Some node)) (\<lambda>b. Inr (acc @ [b]))))
               [] records)
            (\<lambda>new. Inr (businesses @ new))))
       None
       []"

text \<open>
  \<open>get_reviews_of_businesses\<close>: the consumer appends one \<open>Review\<close> per record, built from
  the relationship bound to \<open>r\<close> alone.
\<close>

definition get_reviews_of_businesses ::
  "neo4j_dao \<Rightarrow> string list \<Rightarrow> (py_error + neo_review list) \<times> service_call list" where
  "get_reviews_of_businesses self business_ids =
     session_read (service self)
       ''MATCH (b:Business)<-[r:REVIEWED]-(u:User) WHERE b.externalID in $ids RETURN b, r, u''
       (Some (\<lambda>records reviews.
          efoldl (\<lambda>reviews r.
            ebind (record_getitem r ''r'') (\<lambda>review_relationship.
            ebind (Review_from_relationship review_relationship) (\<lambda>rv.
            Inr (reviews @ [rv]))))
            reviews records))
       (Some [(''ids'', ParamStrs business_ids)])
       []"

section \<open>graphdb/main/schema.py\<close>

text \<open>
  \<open>dataloader_business_reviews\<close> builds its DAO with \<open>Neo4jDAO()\<close>, groups the reviews by
  \<open>r.business.id\<close> and looks every key up. The keys are strings; the dictionary is keyed
  by the property values the business nodes hold. \<open>d[k].append(v)\<close> hashes \<open>k\<close> before
  anything else, so a business id that is a list raises \<open>TypeError\<close> and ends the function.
\<close>

definition defaultdict_append_hashed ::
  "(pval \<rightharpoonup> 'v list) \<Rightarrow> pval \<Rightarrow> 'v \<Rightarrow> py_error + (pval \<rightharpoonup> 'v list)" where
  "defaultdict_append_hashed d k v =
     (if hashable k then Inr (defaultdict_append d k v) else Inl TypeError)"

definition graphdb_dataloader_business_reviews ::
  "neo4j_service \<Rightarrow> string list \<Rightarrow> (py_error + neo_review list list) \<times> service_call list" where
  "graphdb_dataloader_business_reviews NEO4JSERVICE keys =
     (let dao = Neo4jDAO NEO4JSERVICE None in
      and_then (get_reviews_of_businesses dao keys) (\<lambda>reviews.
      ebind (efoldl (\<lambda>d r. defaultdict_append_hashed d (b_id (r_business r)) r)
               Map.empty reviews) (\<lambda>review_by_business_id.
        Inr (map (\<lambda>pk. dict_get review_by_business_id (PStr pk) []) keys))))"

section \<open>Seed data (myapp/management/commands/seed_data.py)\<close>

text \<open>
  The rows the seed command of the Django variants creates in an empty database: the
  users \<open>vancly\<close> and \<open>emmaly\<close> (after \<open>root\<close>), the businesses Joes (1), Movies \<open>&\<close>
  Burgers (2) and SuperPlex (3), and four reviews; SuperPlex has none. The two queries of
  the batch functions, answered from these rows, stand in for the ORM in the examples.
\<close>

definition van :: django_user where
  "van = \<lparr>user_id = 2, username = ''vancly'', email = Some []\<rparr>"

definition emma :: django_user where
  "emma = \<lparr>user_id = 3, username = ''emmaly'', email = Some []\<rparr>"

definition seed_reviews :: "django_review list" where
  "seed_reviews =
     [\<lparr>review_id = 1, business_id = 1, user = emma, rating = 5,
        comment = ''I love their clam chowder!''\<rparr>,
      \<lparr>review_id = 2, business_id = 1, user = van, rating = 4,
        comment = ''Food is good but too expensive.''\<rparr>,
      \<lparr>review_id = 3, business_id = 2, user = emma, rating = 3,
        comment = ''Burger was disappointing.''\<rparr>,
      \<lparr>review_id = 4, business_id = 2, user = van, rating = 4,
        comment = ''Food is good. Movie was OK.''\<rparr>]"

definition seed_filter_business_id_in :: "int list \<Rightarrow> django_review list" where
  "seed_filter_business_id_in keys = filter (\<lambda>r. business_id r \<in> set keys) seed_reviews"

definition seed_filter_id_in :: "int list \<Rightarrow> django_review list" where
  "seed_filter_id_in keys = filter (\<lambda>r. review_id r \<in> set keys) seed_reviews"

text \<open>
  The graph the seed command of the graphdb variant creates, cut down to the business
  Joes with its two reviews, and a driver that answers every read with the \<open>REVIEWED\<close>
  relationships whose business is among the \<open>ids\<close> parameter.
\<close>

definition joes_node :: entity where
  "joes_node = Node ''4:b:0''
     [''externalID'' \<mapsto> PStr ''9a96caca'', ''name'' \<mapsto> PStr ''Joes'',
      ''description'' \<mapsto> PStr ''Eat at Joes'']"

definition van_node :: entity where
  "van_node = Node ''4:u:0''
     [''externalID'' \<mapsto> PStr ''2'', ''name'' \<mapsto> PStr ''Van Ly'', ''email'' \<mapsto> PStr []]"

definition emma_node :: entity where
  "emma_node = Node ''4:u:1''
     [''externalID'' \<mapsto> PStr ''3'', ''name'' \<mapsto> PStr ''Emma Ly'', ''email'' \<mapsto> PStr []]"

definition van_joes :: entity where
  "van_joes = Relationship ''5:r:0''
     [''rating'' \<mapsto> PInt 4, ''comment'' \<mapsto> PStr ''Food is good but too expensive.'']
     (Some van_node) (Some joes_node)"

definition emma_joes :: entity where
  "emma_joes = Relationship ''5:r:1''
     [''rating'' \<mapsto> PInt 5, ''comment'' \<mapsto> PStr ''I love their clam chowder!'']
     (Some emma_node) (Some joes_node)"

definition seed_records :: "params option \<Rightarrow> neo_record list" where
  "seed_records ps =
     (case ps of
        Some [(k, ParamStrs ids)] \<Rightarrow>
          (if ''9a96caca'' \<in> set ids
           then [[''b'' \<mapsto> joes_node, ''r'' \<mapsto> van_joes, ''u'' \<mapsto> van_node],
                 [''b'' \<mapsto> joes_node, ''r'' \<mapsto> emma_joes, ''u'' \<mapsto> emma_node]]
           else [])
      | _ \<Rightarrow> [])"

definition seed_service :: neo4j_service where
  "seed_service =
     \<lparr>driver = \<lparr>read_tx_run = (\<lambda>query. seed_records), write_tx_run = (\<lambda>query ps. [])\<rparr>\<rparr>"

text \<open>A service over an empty graph.\<close>

definition empty_service :: neo4j_service where
  "empty_service =
     \<lparr>driver = \<lparr>read_tx_run = (\<lambda>query ps. []), write_tx_run = (\<lambda>query ps. [])\<rparr>\<rparr>"

text \<open>The \<open>Review\<close> objects the two seeded relationships yield.\<close>

definition van_joes_review :: neo_review where
  "van_joes_review =
     \<lparr>r_id = ''5:r:0'', r_rating = PInt 4,
      r_comment = PStr ''Food is good but too expensive.'',
      r_author = \<lparr>u_id = PStr ''2'', u_name = PStr ''Van Ly'', u_email = PStr []\<rparr>,
      r_business = \<lparr>b_id = PStr ''9a96caca'', b_name = PStr ''Joes'',
                     b_description = PStr ''Eat at Joes''\<rparr>\<rparr>"

definition emma_joes_review :: neo_review where
  "emma_joes_review =
     \<lparr>r_id = ''5:r:1'', r_rating = PInt 5,
      r_comment = PStr ''I love their clam chowder!'',
      r_author = \<lparr>u_id = PStr ''3'', u_name = PStr ''Emma Ly'', u_email = PStr []\<rparr>,
      r_business = \<lparr>b_id = PStr ''9a96caca'', b_name = PStr ''Joes'',
                     b_description = PStr ''Eat at Joes''\<rparr>\<rparr>"

text \<open>
  Two more graphs. In the first the business node comes without properties, as the end
  node of the relationship does in the answer to \<open>RETURN r, u\<close> of \<open>upsert_review\<close>. In the
  second the \<open>externalID\<close> of the business is a list.
\<close>

definition bare_node :: entity where
  "bare_node = Node ''4:b:0'' Map.empty"

definition van_bare :: entity where
  "van_bare = Relationship ''5:r:0'' [''rating'' \<mapsto> PInt 4] (Some van_node) (Some bare_node)"

definition van_bare_review :: neo_review where
  "van_bare_review =
     \<lparr>r_id = ''5:r:0'', r_rating = PInt 4, r_comment = PNone,
      r_author = \<lparr>u_id = PStr ''2'', u_name = PStr ''Van Ly'', u_email = PStr []\<rparr>,
      r_business = \<lparr>b_id = PNone, b_name = PNone, b_description = PNone\<rparr>\<rparr>"

definition bare_service :: neo4j_service where
  "bare_service =
     \<lparr>driver = \<lparr>read_tx_run = (\<lambda>query ps. [[''r'' \<mapsto> van_bare, ''u'' \<mapsto> van_node]]),
                write_tx_run = (\<lambda>query ps. [[''r'' \<mapsto> van_bare, ''u'' \<mapsto> van_node]])\<rparr>\<rparr>"

definition listed_node :: entity where
  "listed_node = Node ''4:b:9'' [''externalID'' \<mapsto> PList [PStr ''9a96caca'']]"

definition van_listed :: entity where
  "van_listed = Relationship ''5:r:9'' [''rating'' \<mapsto> PInt 4] (Some van_node) (Some listed_node)"

definition listed_service :: neo4j_service where
  "listed_service =
     \<lparr>driver = \<lparr>read_tx_run = (\<lambda>query ps. [[''b'' \<mapsto> listed_node, ''r'' \<mapsto> van_listed,
                                              ''u'' \<mapsto> van_node]]),
                write_tx_run = (\<lambda>query ps. [])\<rparr>\<rparr>"

text \<open>A service that writes as \<open>bare_service\<close> does and reads nothing.\<close>

definition write_only_service :: neo4j_service where
  "write_only_service =
     \<lparr>driver = \<lparr>read_tx_run = (\<lambda>query ps. []),
                write_tx_run = (\<lambda>query ps. [[''r'' \<mapsto> van_bare, ''u'' \<mapsto> van_node]])\<rparr>\<rparr>"

text \<open>A service that reads as \<open>seed_service\<close> does and writes as \<open>bare_service\<close> does.\<close>

definition seed_reader_service :: neo4j_service where
  "seed_reader_service =
     \<lparr>driver = \<lparr>read_tx_run = (\<lambda>query. seed_records),
                write_tx_run = (\<lambda>query ps. [[''r'' \<mapsto> van_bare, ''u'' \<mapsto> van_node]])\<rparr>\<rparr>"

section \<open>graphene/main/schema.py: the middleware\<close>

text \<open>
  \<open>data_loader_middleware\<close> runs once per resolved field. The request context
  \<open>info.context\<close> either lacks the attribute \<open>data_loaders\<close> (\<open>None\<close> below, for which
  \<open>hasattr\<close> is false) or holds a dictionary from loader names to \<open>SyncDataLoader\<close>
  objects. Constructing a \<open>SyncDataLoader\<close> makes a new object; an object is identified by
  the number of loaders constructed before it and remembers the batch function it was
  given. \<open>next\<close> is the rest of the resolver chain: it receives the context after the
  middleware's own step and may change it.
\<close>

datatype batch_load_fn = Business_review_data_loader | Review_author_data_loader

record sync_data_loader =
  loader_id :: nat
  batch_load_fn :: batch_load_fn

record request_context =
  data_loaders :: "(string \<rightharpoonup> sync_data_loader) option"
  constructed :: nat

definition graphene_USE_DATALOADERS :: bool where
  "graphene_USE_DATALOADERS = True"

definition hasattr_data_loaders :: "request_context \<Rightarrow> bool" where
  "hasattr_data_loaders context = (data_loaders context \<noteq> None)"

definition SyncDataLoader ::
  "batch_load_fn \<Rightarrow> request_context \<Rightarrow> sync_data_loader \<times> request_context" where
  "SyncDataLoader fn context =
     (\<lparr>loader_id = constructed context, batch_load_fn = fn\<rparr>,
      context\<lparr>constructed := Suc (constructed context)\<rparr>)"

definition data_loader_middleware ::
  "('root \<Rightarrow> request_context \<Rightarrow> 'args \<Rightarrow> 'r \<times> request_context)
     \<Rightarrow> 'root \<Rightarrow> request_context \<Rightarrow> 'args \<Rightarrow> 'r \<times> request_context" where
  "data_loader_middleware next root context args =
     (let context =
        (if graphene_USE_DATALOADERS then
           (if \<not> hasattr_data_loaders context then
              (let (business_review, context) =
                     SyncDataLoader Business_review_data_loader context;
                   (review_author, context) =
                     SyncDataLoader Review_author_data_loader context
               in context\<lparr>data_loaders :=
                    Some [''business_review'' \<mapsto> business_review,
                          ''review_author'' \<mapsto> review_author]\<rparr>)
            else context)
         else context)
      in next root context args)"

text \<open>
  A sequence of invocations on one request context: each invocation has its own \<open>next\<close>,
  \<open>root\<close> and arguments, and passes the context on to the following one.
\<close>

fun invocations ::
  "(('root \<Rightarrow> request_context \<Rightarrow> 'args \<Rightarrow> 'r \<times> request_context) \<times> 'root \<times> 'args) list
     \<Rightarrow> request_context \<Rightarrow> request_context" where
  "invocations [] context = context"
| "invocations ((next, root, args) # rest) context =
     invocations rest (snd (data_loader_middleware next root context args))"

text \<open>
  A resolver of the schema as \<open>next\<close>: \<open>UserType.resolve_name\<close> returns \<open>root.username\<close>
  and leaves the context as it is.
\<close>

definition resolve_name ::
  "django_user \<Rightarrow> request_context \<Rightarrow> unit \<Rightarrow> string \<times> request_context" where
  "resolve_name root context args = (username root, context)"

section \<open>The loader (\<open>SyncDataLoader\<close>)\<close>

text \<open>
  Modelled from the spec: the class \<open>SyncDataLoader\<close> that the views and the middleware
  instantiate comes from the library \<open>graphql_sync_dataloaders\<close>; its source is not part of
  the repository. The spec (Data Model, Loader) describes it: a cache from keys to result
  handles that lives as long as the window, the keys awaiting the next flush in insertion
  order, and handles that are pending until a flush settles them. A batch function
  answers a key list with one result per key, \<open>None\<close> marking a missing key, or fails as a
  whole (\<open>None\<close> for the call). The field \<open>batches\<close> records every key list the batch
  function has been invoked with, oldest first.
\<close>

datatype loader_error = BatchContractViolation | BackendFailure

datatype 'v handle_state = Pending | Settled "'v option" | Failed loader_error

record ('k, 'v) loader =
  batch_fn :: "'k list \<Rightarrow> 'v option list option"
  cache :: "'k \<rightharpoonup> nat"
  handles :: "'v handle_state list"
  pending :: "'k list"
  batches :: "'k list list"

text \<open>
  Modelled from the spec: a loader is constructed per window with an empty cache and no
  pending key.
\<close>

definition new_loader :: "('k list \<Rightarrow> 'v option list option) \<Rightarrow> ('k, 'v) loader" where
  "new_loader f = \<lparr>batch_fn = f, cache = Map.empty, handles = [], pending = [], batches = []\<rparr>"

text \<open>
  Modelled from the spec: \<open>load(key)\<close> returns the existing handle when the key has an
  entry in the cache; otherwise it creates a pending handle, stores it in the cache under
  the key and adds the key to the keys awaiting the next flush.
\<close>

definition load :: "'k \<Rightarrow> ('k, 'v) loader \<Rightarrow> nat \<times> ('k, 'v) loader" where
  "load key l =
     (case cache l key of
        Some h \<Rightarrow> (h, l)
      | None \<Rightarrow>
          (length (handles l),
           l\<lparr>cache := (cache l)(key \<mapsto> length (handles l)),
             handles := handles l @ [Pending],
             pending := pending l @ [key]\<rparr>))"

text \<open>Modelled from the spec: settling the handle of a key with an outcome.\<close>

definition settle :: "'k \<Rightarrow> 'v handle_state \<Rightarrow> ('k, 'v) loader \<Rightarrow> ('k, 'v) loader" where
  "settle key outcome l =
     (case cache l key of
        Some h \<Rightarrow> l\<lparr>handles := (handles l)[h := outcome]\<rparr>
      | None \<Rightarrow> l)"

text \<open>
  Modelled from the spec: \<open>flush()\<close> takes the pending keys and clears them, calls the
  batch function once with them, and settles every handle of the flush: with the
  positionally matched result, with \<open>BackendFailure\<close> when the call fails as a whole, with
  \<open>BatchContractViolation\<close> when the result has another length than the key list. A
  loader without pending keys is idle and does not flush.
\<close>

definition flush :: "('k, 'v) loader \<Rightarrow> ('k, 'v) loader" where
  "flush l =
     (if pending l = [] then l
      else
        (let keys = pending l;
             l = l\<lparr>pending := [], batches := batches l @ [keys]\<rparr>
         in case batch_fn l keys of
              None \<Rightarrow> foldl (\<lambda>l key. settle key (Failed BackendFailure) l) l keys
            | Some results \<Rightarrow>
                (if length results \<noteq> length keys
                 then foldl (\<lambda>l key. settle key (Failed BatchContractViolation) l) l keys
                 else foldl (\<lambda>l (key, result). settle key (Settled result) l) l
                        (zip keys results))))"

text \<open>
  Modelled from the spec: what happens to a loader during one window is a sequence of
  \<open>load\<close> calls and flushes, in any order the scheduling trigger produces.
\<close>

datatype 'k event = Load 'k | Flush

fun step :: "('k, 'v) loader \<Rightarrow> 'k event \<Rightarrow> ('k, 'v) loader" where
  "step l (Load key) = snd (load key l)"
| "step l Flush = flush l"

definition window :: "('k list \<Rightarrow> 'v option list option) \<Rightarrow> 'k event list \<Rightarrow> ('k, 'v) loader" where
  "window f events = foldl step (new_loader f) events"

text \<open>The keys of the \<open>load\<close> calls of a window, and a list cut down to first occurrences.\<close>

fun loaded_keys :: "'k event list \<Rightarrow> 'k list" where
  "loaded_keys [] = []"
| "loaded_keys (Load key # events) = key # loaded_keys events"
| "loaded_keys (Flush # events) = loaded_keys events"

definition first_occurrences :: "'k list \<Rightarrow> 'k list" where
  "first_occurrences keys = rev (remdups (rev keys))"

section \<open>The batch functions on a heap of list objects\<close>

text \<open>
  Whether a batch function changes the list it is given is a question about objects, not
  values: Python passes \<open>keys\<close> by reference and \<open>append\<close> changes a list in place. Here
  every list is an object on a heap; a reference is the position of the object in the
  heap, and a new list goes to the end of the heap. An element of a list is a key, a model
  instance (instances are never assigned to by the batch functions), \<open>None\<close>, or a
  reference to a list. Dictionaries are local to a batch function and referenced from one
  variable only, so they stay values; the lists they hold are references into the heap.
\<close>

datatype ('k, 'e) pyval = VKey 'k | VObj 'e | VNone | VRef nat

type_synonym ('k, 'e) heap = "('k, 'e) pyval list list"

text \<open>A list display \<open>[...]\<close> or a call of \<open>list()\<close> makes a new object.\<close>

definition alloc :: "('k, 'e) heap \<Rightarrow> ('k, 'e) pyval list \<Rightarrow> nat \<times> ('k, 'e) heap" where
  "alloc h xs = (length h, h @ [xs])"

text \<open>\<open>a.append(x)\<close> changes the object that \<open>a\<close> refers to.\<close>

definition list_append :: "('k, 'e) heap \<Rightarrow> nat \<Rightarrow> ('k, 'e) pyval \<Rightarrow> ('k, 'e) heap" where
  "list_append h a x = h[a := h ! a @ [x]]"

text \<open>
  Reading the key list: the reference must be to an object of the heap, and the ORM lookup
  the keys go into accepts keys only.
\<close>

fun as_key :: "('k, 'e) pyval \<Rightarrow> 'k option" where
  "as_key (VKey k) = Some k"
| "as_key v = None"

definition read_keys :: "('k, 'e) heap \<Rightarrow> nat \<Rightarrow> py_error + 'k list" where
  "read_keys h keys =
     (if keys < length h
      then (case those (map as_key (h ! keys)) of None \<Rightarrow> Inl TypeError | Some ks \<Rightarrow> Inr ks)
      else Inl TypeError)"

text \<open>
  \<open>d[k].append(x)\<close> on a \<open>defaultdict(list)\<close>: a missing key gets a new empty list from
  the factory, then the list under \<open>k\<close> is appended to in place.
\<close>

definition defaultdict_append_on_heap ::
  "('d \<rightharpoonup> nat) \<times> ('k, 'e) heap \<Rightarrow> 'd \<Rightarrow> ('k, 'e) pyval
     \<Rightarrow> ('d \<rightharpoonup> nat) \<times> ('k, 'e) heap" where
  "defaultdict_append_on_heap dh k x =
     (case fst dh k of
        Some a \<Rightarrow> (fst dh, list_append (snd dh) a x)
      | None \<Rightarrow>
          (let (a, h) = alloc (snd dh) []
           in ((fst dh)(k \<mapsto> a), list_append h a x)))"

text \<open>
  \<open>d.get(k, [])\<close>: the default \<open>[]\<close> is evaluated, so a new empty list is made at every
  call; it is the result when \<open>k\<close> is missing.
\<close>

definition dict_get_on_heap ::
  "('k \<rightharpoonup> nat) \<Rightarrow> ('k, 'e) heap \<Rightarrow> 'k \<Rightarrow> ('k, 'e) pyval \<times> ('k, 'e) heap" where
  "dict_get_on_heap d h k =
     (let (dflt, h) = alloc h []
      in (case d k of None \<Rightarrow> (VRef dflt, h) | Some a \<Rightarrow> (VRef a, h)))"

text \<open>The comprehension \<open>[d.get(pk, []) for pk in keys]\<close>, building its result list.\<close>

definition get_each_on_heap ::
  "('k \<rightharpoonup> nat) \<Rightarrow> ('k, 'e) heap \<Rightarrow> 'k list \<Rightarrow> nat \<times> ('k, 'e) heap" where
  "get_each_on_heap d h ks =
     (let (vs, h) =
            foldl (\<lambda>(vs, h) pk. let (v, h) = dict_get_on_heap d h pk in (vs @ [v], h))
              ([], h) ks
      in alloc h vs)"

text \<open>The comprehension \<open>[d.get(pk) for pk in keys]\<close> over a dictionary of instances.\<close>

definition get_each_none_on_heap ::
  "('k \<rightharpoonup> 'e) \<Rightarrow> ('k, 'e) heap \<Rightarrow> 'k list \<Rightarrow> nat \<times> ('k, 'e) heap" where
  "get_each_none_on_heap d h ks =
     alloc h (map (\<lambda>pk. case d pk of None \<Rightarrow> VNone | Some e \<Rightarrow> VObj e) ks)"

text \<open>
  The seven batch functions again, statement by statement, taking the heap and the
  reference \<open>keys\<close> and returning the reference to their result and the heap they leave.
  The backend query is given the keys read from the list and does not write to the heap.
\<close>

definition ariadne_get_reviews_for_businesses_on_heap ::
  "(int list \<Rightarrow> django_review list) \<Rightarrow> (int, django_review) heap \<Rightarrow> nat
     \<Rightarrow> py_error + nat \<times> (int, django_review) heap" where
  "ariadne_get_reviews_for_businesses_on_heap query h business_ids =
     ebind (read_keys h business_ids) (\<lambda>ks.
       let (reviews_by_business_id, h) =
              foldl (\<lambda>dh review. defaultdict_append_on_heap dh (business_id review) (VObj review))
                (Map.empty, h) (query ks);
           reviews_by_business_id = dict_of reviews_by_business_id
       in Inr (get_each_on_heap reviews_by_business_id h ks))"

definition ariadne_get_authors_for_reviews_on_heap ::
  "(int list \<Rightarrow> django_review list) \<Rightarrow> (int, django_user) heap \<Rightarrow> nat
     \<Rightarrow> py_error + nat \<times> (int, django_user) heap" where
  "ariadne_get_authors_for_reviews_on_heap query h review_ids =
     ebind (read_keys h review_ids) (\<lambda>ks.
       let authors_by_review_id =
             foldl (\<lambda>d review. dict_setitem d (review_id review) (user review))
               Map.empty (query ks)
       in Inr (get_each_none_on_heap authors_by_review_id h ks))"

definition graphene_review_author_data_loader_on_heap ::
  "(int list \<Rightarrow> django_review list) \<Rightarrow> (int, django_user) heap \<Rightarrow> nat
     \<Rightarrow> py_error + nat \<times> (int, django_user) heap" where
  "graphene_review_author_data_loader_on_heap query h keys =
     ebind (read_keys h keys) (\<lambda>ks.
       let reviews = query ks;
           review_author_by_review_id =
             foldl (\<lambda>d r. dict_setitem d (review_id r) (user r)) Map.empty reviews
       in Inr (get_each_none_on_heap review_author_by_review_id h ks))"

definition graphene_business_review_data_loader_on_heap ::
  "(int list \<Rightarrow> django_review list) \<Rightarrow> (int, django_review) heap \<Rightarrow> nat
     \<Rightarrow> py_error + nat \<times> (int, django_review) heap" where
  "graphene_business_review_data_loader_on_heap query h keys =
     ebind (read_keys h keys) (\<lambda>ks.
       let reviews = query ks;
           (review_by_business_id, h) =
              foldl (\<lambda>dh r. defaultdict_append_on_heap dh (business_id r) (VObj r))
                (Map.empty, h) reviews
       in Inr (get_each_on_heap review_by_business_id h ks))"

definition strawberry_dataloader_business_reviews_on_heap ::
  "(int list \<Rightarrow> django_review list) \<Rightarrow> (int, django_review) heap \<Rightarrow> nat
     \<Rightarrow> py_error + nat \<times> (int, django_review) heap" where
  "strawberry_dataloader_business_reviews_on_heap query h keys =
     ebind (read_keys h keys) (\<lambda>ks.
       let reviews = query ks;
           (review_by_business_id, h) =
              foldl (\<lambda>dh r. defaultdict_append_on_heap dh (business_id r) (VObj r))
                (Map.empty, h) reviews
       in Inr (get_each_on_heap review_by_business_id h ks))"

definition strawberry_dataloader_review_author_on_heap ::
  "(int list \<Rightarrow> django_review list) \<Rightarrow> (int, django_user) heap \<Rightarrow> nat
     \<Rightarrow> py_error + nat \<times> (int, django_user) heap" where
  "strawberry_dataloader_review_author_on_heap query h keys =
     ebind (read_keys h keys) (\<lambda>ks.
       let author_by_review_id =
             foldl (\<lambda>d r. dict_setitem d (review_id r) (user r)) Map.empty (query ks)
       in Inr (get_each_none_on_heap author_by_review_id h ks))"

text \<open>
  In the graphdb variant the keys go through repository code before they reach the
  driver. \<open>get_reviews_of_businesses\<close> is handed the reference \<open>business_ids\<close>, makes the
  list \<open>reviews\<close>, and passes the reference on under \<open>ids\<close>; the driver reads the list when
  it runs the query, and as an external collaborator it is taken not to write to it. The
  consumer appends to \<open>reviews\<close> in place, so the heap is the state threaded through it.
  The calls are those of the function on values and are left out.
\<close>

definition get_reviews_of_businesses_on_heap ::
  "neo4j_dao \<Rightarrow> (string, neo_review) heap \<Rightarrow> nat
     \<Rightarrow> py_error + nat \<times> (string, neo_review) heap" where
  "get_reviews_of_businesses_on_heap self h business_ids =
     (let (reviews, h) = alloc h [] in
      ebind (read_keys h business_ids) (\<lambda>ids.
      ebind (fst (session_read (service self)
               ''MATCH (b:Business)<-[r:REVIEWED]-(u:User) WHERE b.externalID in $ids RETURN b, r, u''
               (Some (\<lambda>records h.
                  efoldl (\<lambda>h r.
                    ebind (record_getitem r ''r'') (\<lambda>review_relationship.
                    ebind (Review_from_relationship review_relationship) (\<lambda>rv.
                    Inr (list_append h reviews (VObj rv)))))
                    h records))
               (Some [(''ids'', ParamStrs ids)])
               h)) (\<lambda>h.
        Inr (reviews, h))))"

text \<open>Iterating a list of instances; anything else in it has no attribute \<open>business\<close>.\<close>

fun as_obj :: "('k, 'e) pyval \<Rightarrow> 'e option" where
  "as_obj (VObj e) = Some e"
| "as_obj v = None"

definition read_objs :: "('k, 'e) heap \<Rightarrow> nat \<Rightarrow> py_error + 'e list" where
  "read_objs h a =
     (if a < length h
      then (case those (map as_obj (h ! a)) of
              None \<Rightarrow> Inl (AttributeError ''business'')
            | Some es \<Rightarrow> Inr es)
      else Inl TypeError)"

definition defaultdict_append_hashed_on_heap ::
  "(pval \<rightharpoonup> nat) \<times> ('k, 'e) heap \<Rightarrow> pval \<Rightarrow> ('k, 'e) pyval
     \<Rightarrow> py_error + (pval \<rightharpoonup> nat) \<times> ('k, 'e) heap" where
  "defaultdict_append_hashed_on_heap dh k x =
     (if hashable k then Inr (defaultdict_append_on_heap dh k x) else Inl TypeError)"

text \<open>
  The batch function iterates the list the DAO returned, and iterates \<open>keys\<close> again for its
  result after the DAO and the grouping have run.
\<close>

definition graphdb_dataloader_business_reviews_on_heap ::
  "neo4j_service \<Rightarrow> (string, neo_review) heap \<Rightarrow> nat
     \<Rightarrow> py_error + nat \<times> (string, neo_review) heap" where
  "graphdb_dataloader_business_reviews_on_heap NEO4JSERVICE h keys =
     (let dao = Neo4jDAO NEO4JSERVICE None in
      ebind (get_reviews_of_businesses_on_heap dao h keys) (\<lambda>(reviews, h).
      ebind (read_objs h reviews) (\<lambda>rows.
      ebind (efoldl (\<lambda>dh r.
               defaultdict_append_hashed_on_heap dh (b_id (r_business r)) (VObj r))
               (Map.empty, h) rows) (\<lambda>(review_by_business_id, h).
      ebind (read_keys h keys) (\<lambda>ks.
        Inr (get_each_on_heap (\<lambda>pk. review_by_business_id (PStr pk)) h ks))))))"

text \<open>Reading a result back from the heap, for comparison with the values.\<close>

fun obj_of :: "('k, 'e) pyval \<Rightarrow> 'e option" where
  "obj_of (VObj e) = Some e"
| "obj_of v = None"

definition read_optionals :: "('k, 'e) heap \<Rightarrow> nat \<Rightarrow> 'e option list" where
  "read_optionals h a = map obj_of (h ! a)"

definition read_lists :: "('k, 'e) heap \<Rightarrow> nat \<Rightarrow> 'e option list list" where
  "read_lists h a =
     map (\<lambda>v. case v of VRef b \<Rightarrow> map obj_of (h ! b) | _ \<Rightarrow> []) (h ! a)"

section \<open>Properties\<close>

text \<open>
  C10. The ariadne email resolver never yields \<open>None\<close>: it returns the user's email when
  that is a non-empty string, and the empty string when the stored email is \<open>None\<close> or
  empty.
\<close>

theorem resolve_user_email_never_null:
  "resolve_user_email u \<noteq> None
   \<and> (\<forall>e. email u = Some e \<and> e \<noteq> [] \<longrightarrow> resolve_user_email u = Some e)
   \<and> (email u = None \<or> email u = Some [] \<longrightarrow> resolve_user_email u = Some [])"
  by (cases "email u") (auto simp: resolve_user_email_def py_or_def)

theorem resolve_user_email_never_null_witness:
  "resolve_user_email \<lparr>user_id = 5, username = ''ann'', email = Some ''a@b.c''\<rparr> = Some ''a@b.c''
   \<and> resolve_user_email \<lparr>user_id = 9, username = ''bob'', email = None\<rparr> = Some []
   \<and> resolve_user_email \<lparr>user_id = 7, username = ''cy'', email = Some []\<rparr> = Some []"
  using resolve_user_email_never_null [of "\<lparr>user_id = 5, username = ''ann'', email = Some ''a@b.c''\<rparr>"]
    resolve_user_email_never_null [of "\<lparr>user_id = 9, username = ''bob'', email = None\<rparr>"]
    resolve_user_email_never_null [of "\<lparr>user_id = 7, username = ''cy'', email = Some []\<rparr>"]
  by simp

subsection \<open>The grouping and indexing loops\<close>

text \<open>
  Grouping with \<open>defaultdict(list)\<close> and \<open>append\<close> leaves under every key the rows with
  that key, in iteration order.
\<close>

lemma dict_get_group_fold:
  "dict_get (foldl (\<lambda>d r. defaultdict_append d (key r) r) d rs) k []
     = dict_get d k [] @ filter (\<lambda>r. key r = k) rs"
  by (induction rs arbitrary: d)
    (auto simp: dict_get_def defaultdict_append_def split: option.splits)

lemma group_fold_empty:
  "dict_get (foldl (\<lambda>d r. defaultdict_append d (key r) r) Map.empty rs) k []
     = filter (\<lambda>r. key r = k) rs"
  by (simp add: dict_get_group_fold) (simp add: dict_get_def)

lemma find_app:
  "find P (xs @ ys) = (case find P xs of None \<Rightarrow> find P ys | Some x \<Rightarrow> Some x)"
  by (induction xs) auto

text \<open>Indexing with item assignment keeps, for every key, the last row with that key.\<close>

lemma setitem_fold:
  "foldl (\<lambda>d r. dict_setitem d (key r) (val r)) d rs k
     = (case find (\<lambda>r. key r = k) (rev rs) of None \<Rightarrow> d k | Some r \<Rightarrow> Some (val r))"
  by (induction rs arbitrary: d)
    (auto simp: dict_setitem_def find_app split: option.splits)

lemma setitem_fold_empty:
  "dict_get_none (foldl (\<lambda>d r. dict_setitem d (key r) (val r)) Map.empty rs) k
     = map_option val (find (\<lambda>r. key r = k) (rev rs))"
  by (simp add: dict_get_none_def setitem_fold split: option.splits)

subsection \<open>What each batch function returns\<close>

lemma ariadne_reviews_eq:
  "ariadne_get_reviews_for_businesses query ks
     = map (\<lambda>k. filter (\<lambda>r. business_id r = k) (query ks)) ks"
  by (simp add: ariadne_get_reviews_for_businesses_def dict_of_def group_fold_empty)

lemma graphene_reviews_eq:
  "graphene_business_review_data_loader query ks
     = map (\<lambda>k. filter (\<lambda>r. business_id r = k) (query ks)) ks"
  by (simp add: graphene_business_review_data_loader_def group_fold_empty)

lemma strawberry_reviews_eq:
  "strawberry_dataloader_business_reviews query ks
     = map (\<lambda>k. filter (\<lambda>r. business_id r = k) (query ks)) ks"
  by (simp add: strawberry_dataloader_business_reviews_def group_fold_empty)

lemma ariadne_authors_eq:
  "ariadne_get_authors_for_reviews query ks
     = map (\<lambda>k. map_option user (find (\<lambda>r. review_id r = k) (rev (query ks)))) ks"
  by (simp add: ariadne_get_authors_for_reviews_def setitem_fold_empty)

lemma graphene_authors_eq:
  "graphene_review_author_data_loader query ks
     = map (\<lambda>k. map_option user (find (\<lambda>r. review_id r = k) (rev (query ks)))) ks"
  by (simp add: graphene_review_author_data_loader_def setitem_fold_empty)

lemma strawberry_authors_eq:
  "strawberry_dataloader_review_author query ks
     = map (\<lambda>k. map_option user (find (\<lambda>r. review_id r = k) (rev (query ks)))) ks"
  by (simp add: strawberry_dataloader_review_author_def setitem_fold_empty)

text \<open>
  A loop that raises on an unhashable key runs to its end exactly when every key is
  hashable.
\<close>

lemma efoldl_hashed:
  "efoldl (\<lambda>d r. defaultdict_append_hashed d (key r) r) d rs
     = (if \<forall>r\<in>set rs. hashable (key r)
        then Inr (foldl (\<lambda>d r. defaultdict_append d (key r) r) d rs)
        else Inl TypeError)"
  by (induction rs arbitrary: d) (simp_all add: defaultdict_append_hashed_def ebind_def)

text \<open>
  The graphdb batch function raises when its DAO call raises or when the business id of a
  review cannot be hashed; otherwise it returns the grouped reviews.
\<close>

lemma graphdb_reviews_eq:
  "fst (graphdb_dataloader_business_reviews g ks)
     = ebind (fst (get_reviews_of_businesses (Neo4jDAO g None) ks))
         (\<lambda>reviews.
            if \<forall>r\<in>set reviews. hashable (b_id (r_business r))
            then Inr (map (\<lambda>k. filter (\<lambda>r. b_id (r_business r) = PStr k) reviews) ks)
            else Inl TypeError)"
proof -
  have "ebind (efoldl (\<lambda>d r. defaultdict_append_hashed d (b_id (r_business r)) r)
                 Map.empty reviews)
          (\<lambda>d. Inr (map (\<lambda>pk. dict_get d (PStr pk) []) ks))
      = (if \<forall>r\<in>set reviews. hashable (b_id (r_business r))
         then Inr (map (\<lambda>k. filter (\<lambda>r. b_id (r_business r) = PStr k) reviews) ks)
         else (Inl TypeError :: py_error + neo_review list list))"
    for reviews :: "neo_review list"
    by (simp add: efoldl_hashed [where key = "\<lambda>r. b_id (r_business r)"] ebind_def
        group_fold_empty)
  then show ?thesis
    by (simp add: graphdb_dataloader_business_reviews_def and_then_def Let_def)
qed

lemma graphdb_reviews_Inr:
  "fst (graphdb_dataloader_business_reviews g ks) = Inr res \<longleftrightarrow>
     (\<exists>reviews. fst (get_reviews_of_businesses (Neo4jDAO g None) ks) = Inr reviews
        \<and> (\<forall>r\<in>set reviews. hashable (b_id (r_business r)))
        \<and> res = map (\<lambda>k. filter (\<lambda>r. b_id (r_business r) = PStr k) reviews) ks)"
  by (auto simp: graphdb_reviews_eq ebind_def split: sum.splits if_splits)

subsection \<open>The examples, evaluated\<close>

lemmas seed_row_defs =
  seed_filter_business_id_in_def seed_filter_id_in_def seed_reviews_def van_def emma_def

lemmas seed_graph_defs =
  seed_service_def seed_records_def van_joes_def emma_joes_def van_node_def emma_node_def
  joes_node_def van_joes_review_def emma_joes_review_def

lemmas other_graph_defs =
  bare_service_def bare_node_def van_bare_def van_bare_review_def van_node_def
  listed_service_def listed_node_def van_listed_def

lemmas dao_read_defs =
  Neo4jDAO_def get_reviews_of_businesses_def session_read_def ebind_def record_getitem_def
  Review_from_relationship_def and_then_def

lemma seed_graph_reviews:
  "fst (get_reviews_of_businesses (Neo4jDAO seed_service None) [''zz'', ''9a96caca'', ''zz''])
     = Inr [van_joes_review, emma_joes_review]"
  by (simp add: dao_read_defs seed_graph_defs)

lemma seed_graph_batch:
  "fst (graphdb_dataloader_business_reviews seed_service [''zz'', ''9a96caca'', ''zz''])
     = Inr [[], [van_joes_review, emma_joes_review], []]"
  by (simp add: graphdb_reviews_eq seed_graph_reviews ebind_def)
    (simp add: van_joes_review_def emma_joes_review_def)

text \<open>
  A business node without properties gives a review whose business has \<open>None\<close> in every
  field; the batch function returns, and no string key matches the id \<open>None\<close>.
\<close>

lemma bare_graph_reviews:
  "fst (get_reviews_of_businesses (Neo4jDAO bare_service None) [''zz'']) = Inr [van_bare_review]"
  by (simp add: dao_read_defs other_graph_defs)

lemma bare_graph_batch:
  "fst (graphdb_dataloader_business_reviews bare_service [''zz'']) = Inr [[]]"
  by (simp add: graphdb_reviews_eq bare_graph_reviews ebind_def) (simp add: van_bare_review_def)

text \<open>A business id that is a list ends the batch function with \<open>TypeError\<close>.\<close>

lemma listed_graph_batch:
  "fst (graphdb_dataloader_business_reviews listed_service [''9a96caca'']) = Inl TypeError"
  by (simp add: graphdb_reviews_eq dao_read_defs other_graph_defs)

subsection \<open>Length and order of the results\<close>

text \<open>
  C1. For every key list, every batch function returns a list as long as the key list
  whose value at position \<open>i\<close> is the result for \<open>keys[i]\<close>: for the reviews-by-business
  functions the rows of the backend's answer with that business id, for the
  author-by-review functions the user of the last row of the backend's answer with that
  review id, or \<open>None\<close>. The Django functions have no raising path. The graphdb
  function raises when its DAO call raises or a business id cannot be hashed; whenever it
  returns, its result is as said, on the reviews its DAO call returned, and it returns
  whenever the DAO call returns reviews with hashable business ids.
\<close>

theorem batch_results_same_length_same_order:
  "(length (ariadne_get_reviews_for_businesses q ks) = length ks
      \<and> (\<forall>i<length ks. ariadne_get_reviews_for_businesses q ks ! i
             = filter (\<lambda>r. business_id r = ks ! i) (q ks)))
   \<and> (length (graphene_business_review_data_loader q ks) = length ks
      \<and> (\<forall>i<length ks. graphene_business_review_data_loader q ks ! i
             = filter (\<lambda>r. business_id r = ks ! i) (q ks)))
   \<and> (length (strawberry_dataloader_business_reviews q ks) = length ks
      \<and> (\<forall>i<length ks. strawberry_dataloader_business_reviews q ks ! i
             = filter (\<lambda>r. business_id r = ks ! i) (q ks)))
   \<and> (length (ariadne_get_authors_for_reviews q ks) = length ks
      \<and> (\<forall>i<length ks. ariadne_get_authors_for_reviews q ks ! i
             = map_option user (find (\<lambda>r. review_id r = ks ! i) (rev (q ks)))))
   \<and> (length (graphene_review_author_data_loader q ks) = length ks
      \<and> (\<forall>i<length ks. graphene_review_author_data_loader q ks ! i
             = map_option user (find (\<lambda>r. review_id r = ks ! i) (rev (q ks)))))
   \<and> (length (strawberry_dataloader_review_author q ks) = length ks
      \<and> (\<forall>i<length ks. strawberry_dataloader_review_author q ks ! i
             = map_option user (find (\<lambda>r. review_id r = ks ! i) (rev (q ks)))))
   \<and> (\<forall>res. fst (graphdb_dataloader_business_reviews g sks) = Inr res \<longrightarrow>
        length res = length sks
        \<and> (\<exists>reviews. fst (get_reviews_of_businesses (Neo4jDAO g None) sks) = Inr reviews
              \<and> (\<forall>i<length sks. res ! i
                    = filter (\<lambda>r. b_id (r_business r) = PStr (sks ! i)) reviews)))
   \<and> (\<forall>reviews. fst (get_reviews_of_businesses (Neo4jDAO g None) sks) = Inr reviews
          \<and> (\<forall>r\<in>set reviews. hashable (b_id (r_business r))) \<longrightarrow>
        (\<exists>res. fst (graphdb_dataloader_business_reviews g sks) = Inr res))"
  by (simp add: ariadne_reviews_eq graphene_reviews_eq strawberry_reviews_eq
      ariadne_authors_eq graphene_authors_eq strawberry_authors_eq graphdb_reviews_Inr)
    fastforce

theorem batch_results_same_length_same_order_witness:
  "length (ariadne_get_reviews_for_businesses seed_filter_business_id_in [1, 3, 1]) = 3
   \<and> map review_id (ariadne_get_reviews_for_businesses seed_filter_business_id_in [1, 3, 1] ! 2)
       = [1, 2]
   \<and> strawberry_dataloader_business_reviews seed_filter_business_id_in [1, 3, 1] ! 1 = []
   \<and> graphene_review_author_data_loader seed_filter_id_in [4, 9, 1] ! 0 = Some van
   \<and> (\<exists>res. fst (graphdb_dataloader_business_reviews seed_service [''zz'', ''9a96caca'', ''zz''])
                = Inr res
          \<and> length res = 3 \<and> res ! 1 = [van_joes_review, emma_joes_review])
   \<and> (\<exists>res. fst (graphdb_dataloader_business_reviews bare_service [''zz'']) = Inr res
          \<and> length res = 1)"
proof -
  note b = batch_results_same_length_same_order
    [of seed_filter_business_id_in "[1, 3, 1]" seed_service "[''zz'', ''9a96caca'', ''zz'']"]
  note a = batch_results_same_length_same_order
    [of seed_filter_id_in "[4, 9, 1]" seed_service "[]"]
  from b have b1: "length (ariadne_get_reviews_for_businesses seed_filter_business_id_in [1, 3, 1])
      = length [1, 3, 1 :: int]"
    by (rule conjunct1 [OF conjunct1])
  from b have "\<forall>i<length [1, 3, 1 :: int].
      ariadne_get_reviews_for_businesses seed_filter_business_id_in [1, 3, 1] ! i
        = filter (\<lambda>r. business_id r = [1, 3, 1] ! i) (seed_filter_business_id_in [1, 3, 1])"
    by (rule conjunct2 [OF conjunct1])
  then have b2: "ariadne_get_reviews_for_businesses seed_filter_business_id_in [1, 3, 1] ! 2
        = filter (\<lambda>r. business_id r = 1) (seed_filter_business_id_in [1, 3, 1])"
    by simp
  from b have "\<forall>i<length [1, 3, 1 :: int].
      strawberry_dataloader_business_reviews seed_filter_business_id_in [1, 3, 1] ! i
        = filter (\<lambda>r. business_id r = [1, 3, 1] ! i) (seed_filter_business_id_in [1, 3, 1])"
    by blast
  then have b3: "strawberry_dataloader_business_reviews seed_filter_business_id_in [1, 3, 1] ! 1
        = filter (\<lambda>r. business_id r = 3) (seed_filter_business_id_in [1, 3, 1])"
    by simp
  from a have "\<forall>i<length [4, 9, 1 :: int].
      graphene_review_author_data_loader seed_filter_id_in [4, 9, 1] ! i
        = map_option user (find (\<lambda>r. review_id r = [4, 9, 1] ! i)
            (rev (seed_filter_id_in [4, 9, 1])))"
    by blast
  then have a1: "graphene_review_author_data_loader seed_filter_id_in [4, 9, 1] ! 0
        = map_option user (find (\<lambda>r. review_id r = 4) (rev (seed_filter_id_in [4, 9, 1])))"
    by simp
  note returns = b [THEN conjunct2, THEN conjunct2, THEN conjunct2, THEN conjunct2,
      THEN conjunct2, THEN conjunct2, THEN conjunct2, rule_format]
  have "\<forall>r\<in>set [van_joes_review, emma_joes_review]. hashable (b_id (r_business r))"
    by (simp add: van_joes_review_def emma_joes_review_def)
  with seed_graph_reviews
  have "fst (get_reviews_of_businesses (Neo4jDAO seed_service None) [''zz'', ''9a96caca'', ''zz''])
        = Inr [van_joes_review, emma_joes_review]
      \<and> (\<forall>r\<in>set [van_joes_review, emma_joes_review]. hashable (b_id (r_business r)))"
    by (rule conjI)
  from returns [OF this]
  obtain res where g1: "fst (graphdb_dataloader_business_reviews seed_service
        [''zz'', ''9a96caca'', ''zz'']) = Inr res"
    by (elim exE) (rule that)
  note returned = b [THEN conjunct2, THEN conjunct2, THEN conjunct2, THEN conjunct2,
      THEN conjunct2, THEN conjunct2, THEN conjunct1, rule_format]
  from returned [OF g1] have g2: "length res = 3"
    by simp
  from g1 have g3: "res ! 1 = [van_joes_review, emma_joes_review]"
    by (auto simp: seed_graph_batch)
  note bare = batch_results_same_length_same_order
    [of seed_filter_id_in "[4, 9, 1]" bare_service "[''zz'']",
      THEN conjunct2, THEN conjunct2, THEN conjunct2, THEN conjunct2,
      THEN conjunct2, THEN conjunct2, THEN conjunct1, rule_format, OF bare_graph_batch]
  then have g4: "length [[] :: neo_review list] = 1"
    by simp
  show ?thesis
    using b1 b2 b3 a1 g1 g2 g3 bare_graph_batch by (simp add: seed_row_defs)
qed


subsection \<open>Reviews by business\<close>

text \<open>
  C3. For every key list and every answer of the backend query, each reviews-by-business
  batch function returns at position \<open>i\<close> exactly the reviews of that answer whose
  business id equals \<open>keys[i]\<close>, in the order of the answer. For the graphdb variant the
  answer is the list of reviews its DAO call returns; the statement is about every run in
  which the batch function returns, and it returns whenever the DAO call returns reviews
  with hashable business ids.
\<close>

theorem reviews_by_business_in_backend_order:
  "(\<forall>i<length ks.
        ariadne_get_reviews_for_businesses q ks ! i
          = filter (\<lambda>r. business_id r = ks ! i) (q ks)
      \<and> graphene_business_review_data_loader q ks ! i
          = filter (\<lambda>r. business_id r = ks ! i) (q ks)
      \<and> strawberry_dataloader_business_reviews q ks ! i
          = filter (\<lambda>r. business_id r = ks ! i) (q ks))
   \<and> (\<forall>res. fst (graphdb_dataloader_business_reviews g sks) = Inr res \<longrightarrow>
        (\<exists>reviews. fst (get_reviews_of_businesses (Neo4jDAO g None) sks) = Inr reviews
           \<and> (\<forall>i<length sks. res ! i
                 = filter (\<lambda>r. b_id (r_business r) = PStr (sks ! i)) reviews)))
   \<and> (\<forall>reviews. fst (get_reviews_of_businesses (Neo4jDAO g None) sks) = Inr reviews
          \<and> (\<forall>r\<in>set reviews. hashable (b_id (r_business r))) \<longrightarrow>
        (\<exists>res. fst (graphdb_dataloader_business_reviews g sks) = Inr res))"
  by (simp add: ariadne_reviews_eq graphene_reviews_eq strawberry_reviews_eq
      graphdb_reviews_Inr)
    fastforce

theorem reviews_by_business_in_backend_order_witness:
  "map review_id (graphene_business_review_data_loader seed_filter_business_id_in [2, 3, 1] ! 0)
     = [3, 4]
   \<and> map review_id (ariadne_get_reviews_for_businesses seed_filter_business_id_in [2, 3, 1] ! 2)
     = [1, 2]
   \<and> strawberry_dataloader_business_reviews seed_filter_business_id_in [2, 3, 1] ! 1 = []
   \<and> (\<exists>res. fst (graphdb_dataloader_business_reviews seed_service [''zz'', ''9a96caca'', ''zz''])
                = Inr res
          \<and> res ! 1 = [van_joes_review, emma_joes_review] \<and> res ! 2 = [])
   \<and> (\<exists>res. fst (graphdb_dataloader_business_reviews bare_service [''zz'']) = Inr res
          \<and> res ! 0 = [])"
proof -
  note t = reviews_by_business_in_backend_order
    [of "[2, 3, 1]" seed_filter_business_id_in seed_service "[''zz'', ''9a96caca'', ''zz'']"]
  from t have d: "\<forall>i<length [2, 3, 1 :: int].
        ariadne_get_reviews_for_businesses seed_filter_business_id_in [2, 3, 1] ! i
          = filter (\<lambda>r. business_id r = [2, 3, 1] ! i) (seed_filter_business_id_in [2, 3, 1])
      \<and> graphene_business_review_data_loader seed_filter_business_id_in [2, 3, 1] ! i
          = filter (\<lambda>r. business_id r = [2, 3, 1] ! i) (seed_filter_business_id_in [2, 3, 1])
      \<and> strawberry_dataloader_business_reviews seed_filter_business_id_in [2, 3, 1] ! i
          = filter (\<lambda>r. business_id r = [2, 3, 1] ! i) (seed_filter_business_id_in [2, 3, 1])"
    by (rule conjunct1)
  from d have d0: "graphene_business_review_data_loader seed_filter_business_id_in [2, 3, 1] ! 0
      = filter (\<lambda>r. business_id r = 2) (seed_filter_business_id_in [2, 3, 1])"
    by simp
  from d have d2: "ariadne_get_reviews_for_businesses seed_filter_business_id_in [2, 3, 1] ! 2
      = filter (\<lambda>r. business_id r = 1) (seed_filter_business_id_in [2, 3, 1])"
    by simp
  from d have d1: "strawberry_dataloader_business_reviews seed_filter_business_id_in [2, 3, 1] ! 1
      = filter (\<lambda>r. business_id r = 3) (seed_filter_business_id_in [2, 3, 1])"
    by simp
  note returned = t [THEN conjunct2, THEN conjunct1, rule_format, OF seed_graph_batch]
  with seed_graph_reviews
  have g: "\<forall>i<length [''zz'', ''9a96caca'', ''zz''].
      [[], [van_joes_review, emma_joes_review], []] ! i
        = filter (\<lambda>r. b_id (r_business r) = PStr ([''zz'', ''9a96caca'', ''zz''] ! i))
            [van_joes_review, emma_joes_review]"
    by simp
  from g [rule_format, of 1]
  have g1: "[[], [van_joes_review, emma_joes_review], []] ! 1
      = [van_joes_review, emma_joes_review]"
    by simp
  from g [rule_format, of 2]
  have g2: "[[], [van_joes_review, emma_joes_review], []] ! 2 = ([] :: neo_review list)"
    by simp
  note bare = reviews_by_business_in_backend_order
    [of "[2, 3, 1]" seed_filter_business_id_in bare_service "[''zz'']",
      THEN conjunct2, THEN conjunct1, rule_format, OF bare_graph_batch]
  with bare_graph_reviews
  have g3: "[[]] ! 0 = filter (\<lambda>r. b_id (r_business r) = PStr ([''zz''] ! 0)) [van_bare_review]"
    by simp
  have first: "\<exists>res. fst (graphdb_dataloader_business_reviews seed_service
        [''zz'', ''9a96caca'', ''zz'']) = Inr res
      \<and> res ! 1 = [van_joes_review, emma_joes_review] \<and> res ! 2 = []"
    using seed_graph_batch g1 g2 by (intro exI [of _ "[[], [van_joes_review, emma_joes_review], []]"]) simp
  have second: "\<exists>res. fst (graphdb_dataloader_business_reviews bare_service [''zz'']) = Inr res
      \<and> res ! 0 = []"
    using bare_graph_batch g3 by (intro exI [of _ "[[]]"]) simp
  show ?thesis
    using d0 d1 d2 first second by (simp add: seed_row_defs)
qed

subsection \<open>Keys without a match\<close>

text \<open>
  C4. A key that matches no row of the backend's answer gets a plain "no value" result
  at its position: \<open>None\<close> from the author-by-review functions, the empty list from the
  reviews-by-business functions. The Django batch functions have no raising path. The
  graphdb one raises when its DAO call raises or a business id cannot be hashed, never
  because a key is unmatched: whenever the DAO call returns reviews with hashable
  business ids it returns, whatever the keys, and whenever it returns the unmatched
  positions hold the empty list.
\<close>

theorem unmatched_key_gets_no_value:
  "(\<forall>i<length ks. (\<forall>r\<in>set (q ks). review_id r \<noteq> ks ! i) \<longrightarrow>
        ariadne_get_authors_for_reviews q ks ! i = None
      \<and> graphene_review_author_data_loader q ks ! i = None
      \<and> strawberry_dataloader_review_author q ks ! i = None)
   \<and> (\<forall>i<length ks. (\<forall>r\<in>set (q ks). business_id r \<noteq> ks ! i) \<longrightarrow>
        ariadne_get_reviews_for_businesses q ks ! i = []
      \<and> graphene_business_review_data_loader q ks ! i = []
      \<and> strawberry_dataloader_business_reviews q ks ! i = [])
   \<and> (\<forall>res. fst (graphdb_dataloader_business_reviews g sks) = Inr res \<longrightarrow>
        (\<exists>reviews. fst (get_reviews_of_businesses (Neo4jDAO g None) sks) = Inr reviews
           \<and> (\<forall>i<length sks. (\<forall>r\<in>set reviews. b_id (r_business r) \<noteq> PStr (sks ! i)) \<longrightarrow>
                 res ! i = [])))
   \<and> (\<forall>reviews. fst (get_reviews_of_businesses (Neo4jDAO g None) sks) = Inr reviews
          \<and> (\<forall>r\<in>set reviews. hashable (b_id (r_business r))) \<longrightarrow>
        (\<exists>res. fst (graphdb_dataloader_business_reviews g sks) = Inr res))"
proof -
  have none: "map_option f (find P xs) = None" if "\<forall>x\<in>set xs. \<not> P x" for f :: "'a \<Rightarrow> 'b" and P xs
    using that by (simp add: find_None_iff)
  have nil: "filter P xs = []" if "\<forall>x\<in>set xs. \<not> P x" for P and xs :: "'a list"
    using that by (simp add: filter_empty_conv)
  show ?thesis
    by (simp add: ariadne_reviews_eq graphene_reviews_eq strawberry_reviews_eq
        ariadne_authors_eq graphene_authors_eq strawberry_authors_eq graphdb_reviews_Inr
        none nil)
      (fastforce simp: nil)
qed

theorem unmatched_key_gets_no_value_witness:
  "ariadne_get_authors_for_reviews seed_filter_id_in [4, 9, 1] ! 1 = None
   \<and> graphene_review_author_data_loader seed_filter_id_in [4, 9, 1] ! 1 = None
   \<and> strawberry_dataloader_review_author seed_filter_id_in [4, 9, 1] ! 1 = None
   \<and> ariadne_get_reviews_for_businesses seed_filter_business_id_in [4, 9, 1] ! 0 = []
   \<and> (\<exists>res. fst (graphdb_dataloader_business_reviews seed_service [''zz'', ''9a96caca'', ''zz''])
                = Inr res \<and> res ! 0 = [])
   \<and> (\<exists>res. fst (graphdb_dataloader_business_reviews bare_service [''zz'']) = Inr res
          \<and> res ! 0 = [])"
proof -
  note a = unmatched_key_gets_no_value
    [of "[4, 9, 1]" seed_filter_id_in seed_service "[''zz'', ''9a96caca'', ''zz'']"]
  note b = unmatched_key_gets_no_value
    [of "[4, 9, 1]" seed_filter_business_id_in seed_service "[''zz'', ''9a96caca'', ''zz'']"]
  have i1: "(1::nat) < length [4, 9, 1 :: int]"
    by simp
  have m1: "\<forall>r\<in>set (seed_filter_id_in [4, 9, 1]). review_id r \<noteq> [4, 9, 1] ! 1"
    by (simp add: seed_row_defs)
  from a i1 m1 have a1: "ariadne_get_authors_for_reviews seed_filter_id_in [4, 9, 1] ! 1 = None
      \<and> graphene_review_author_data_loader seed_filter_id_in [4, 9, 1] ! 1 = None
      \<and> strawberry_dataloader_review_author seed_filter_id_in [4, 9, 1] ! 1 = None"
    by blast
  have i0: "(0::nat) < length [4, 9, 1 :: int]"
    by simp
  have m0: "\<forall>r\<in>set (seed_filter_business_id_in [4, 9, 1]). business_id r \<noteq> [4, 9, 1] ! 0"
    by (simp add: seed_row_defs)
  from b i0 m0 have b0: "ariadne_get_reviews_for_businesses seed_filter_business_id_in [4, 9, 1] ! 0 = []"
    by blast
  note returned = a [THEN conjunct2, THEN conjunct2, THEN conjunct1, rule_format,
      OF seed_graph_batch]
  with seed_graph_reviews
  have g: "\<forall>i<length [''zz'', ''9a96caca'', ''zz''].
      (\<forall>r\<in>set [van_joes_review, emma_joes_review].
         b_id (r_business r) \<noteq> PStr ([''zz'', ''9a96caca'', ''zz''] ! i)) \<longrightarrow>
      [[], [van_joes_review, emma_joes_review], []] ! i = []"
    by simp
  from g [rule_format, of 0]
  have g0: "[[], [van_joes_review, emma_joes_review], []] ! 0 = ([] :: neo_review list)"
    by (simp add: van_joes_review_def emma_joes_review_def)
  note bare = unmatched_key_gets_no_value
    [of "[4, 9, 1]" seed_filter_id_in bare_service "[''zz'']",
      THEN conjunct2, THEN conjunct2, THEN conjunct1, rule_format, OF bare_graph_batch]
  with bare_graph_reviews
  have "\<forall>i<length [''zz''].
      (\<forall>r\<in>set [van_bare_review]. b_id (r_business r) \<noteq> PStr ([''zz''] ! i)) \<longrightarrow>
      [[]] ! i = ([] :: neo_review list)"
    by simp
  from this [rule_format, of 0]
  have g1: "[[]] ! 0 = ([] :: neo_review list)"
    by (simp add: van_bare_review_def)
  have first: "\<exists>res. fst (graphdb_dataloader_business_reviews seed_service
        [''zz'', ''9a96caca'', ''zz'']) = Inr res \<and> res ! 0 = []"
    using seed_graph_batch g0
    by (intro exI [of _ "[[], [van_joes_review, emma_joes_review], []]"]) simp
  have second: "\<exists>res. fst (graphdb_dataloader_business_reviews bare_service [''zz'']) = Inr res
      \<and> res ! 0 = []"
    using bare_graph_batch g1 by (intro exI [of _ "[[]]"]) simp
  show ?thesis
    using a1 b0 first second by simp
qed

subsection \<open>Duplicate keys\<close>

text \<open>
  C9. Every batch function tolerates duplicate keys: where the same key stands at
  positions \<open>i\<close> and \<open>j\<close> of the key list, the result holds equal values at \<open>i\<close> and \<open>j\<close>.
  For the graphdb function this is about every run in which it returns; duplicate keys
  do not make it raise, since it returns whenever its DAO call returns reviews with
  hashable business ids.
\<close>

theorem duplicate_keys_equal_values:
  "(\<forall>i<length ks. \<forall>j<length ks. ks ! i = ks ! j \<longrightarrow>
        ariadne_get_reviews_for_businesses q ks ! i = ariadne_get_reviews_for_businesses q ks ! j
      \<and> graphene_business_review_data_loader q ks ! i
          = graphene_business_review_data_loader q ks ! j
      \<and> strawberry_dataloader_business_reviews q ks ! i
          = strawberry_dataloader_business_reviews q ks ! j
      \<and> ariadne_get_authors_for_reviews q ks ! i = ariadne_get_authors_for_reviews q ks ! j
      \<and> graphene_review_author_data_loader q ks ! i = graphene_review_author_data_loader q ks ! j
      \<and> strawberry_dataloader_review_author q ks ! i
          = strawberry_dataloader_review_author q ks ! j)
   \<and> (\<forall>res. fst (graphdb_dataloader_business_reviews g sks) = Inr res \<longrightarrow>
        (\<forall>i<length sks. \<forall>j<length sks. sks ! i = sks ! j \<longrightarrow> res ! i = res ! j))
   \<and> (\<forall>reviews. fst (get_reviews_of_businesses (Neo4jDAO g None) sks) = Inr reviews
          \<and> (\<forall>r\<in>set reviews. hashable (b_id (r_business r))) \<longrightarrow>
        (\<exists>res. fst (graphdb_dataloader_business_reviews g sks) = Inr res))"
  by (auto simp: ariadne_reviews_eq graphene_reviews_eq strawberry_reviews_eq
      ariadne_authors_eq graphene_authors_eq strawberry_authors_eq graphdb_reviews_Inr)

theorem duplicate_keys_equal_values_witness:
  "ariadne_get_reviews_for_businesses seed_filter_business_id_in [1, 3, 1] ! 0
     = ariadne_get_reviews_for_businesses seed_filter_business_id_in [1, 3, 1] ! 2
   \<and> map review_id (ariadne_get_reviews_for_businesses seed_filter_business_id_in [1, 3, 1] ! 2)
     = [1, 2]
   \<and> graphene_review_author_data_loader seed_filter_id_in [4, 4] ! 0
     = graphene_review_author_data_loader seed_filter_id_in [4, 4] ! 1
   \<and> graphene_review_author_data_loader seed_filter_id_in [4, 4] ! 1 = Some van
   \<and> (\<exists>res. fst (graphdb_dataloader_business_reviews seed_service [''zz'', ''9a96caca'', ''zz''])
                = Inr res \<and> res ! 0 = res ! 2)"
proof -
  note b = duplicate_keys_equal_values
    [of "[1, 3, 1]" seed_filter_business_id_in seed_service "[''zz'', ''9a96caca'', ''zz'']"]
  note a = duplicate_keys_equal_values
    [of "[4, 4]" seed_filter_id_in seed_service "[''zz'', ''9a96caca'', ''zz'']"]
  have "(0::nat) < length [1, 3, 1 :: int]" "(2::nat) < length [1, 3, 1 :: int]"
      "[1, 3, 1 :: int] ! 0 = [1, 3, 1] ! 2"
    by simp_all
  with b have b02: "ariadne_get_reviews_for_businesses seed_filter_business_id_in [1, 3, 1] ! 0
      = ariadne_get_reviews_for_businesses seed_filter_business_id_in [1, 3, 1] ! 2"
    by blast
  have "(0::nat) < length [4, 4 :: int]" "(1::nat) < length [4, 4 :: int]"
      "[4, 4 :: int] ! 0 = [4, 4] ! 1"
    by simp_all
  with a have a01: "graphene_review_author_data_loader seed_filter_id_in [4, 4] ! 0
      = graphene_review_author_data_loader seed_filter_id_in [4, 4] ! 1"
    by blast
  have v2: "map review_id (ariadne_get_reviews_for_businesses seed_filter_business_id_in [1, 3, 1] ! 2)
      = [1, 2]"
    by (simp add: ariadne_reviews_eq seed_row_defs)
  have v1: "graphene_review_author_data_loader seed_filter_id_in [4, 4] ! 1 = Some van"
    by (simp add: graphene_authors_eq seed_row_defs)
  obtain res where r: "fst (graphdb_dataloader_business_reviews seed_service
        [''zz'', ''9a96caca'', ''zz'']) = Inr res"
    using seed_graph_batch by simp
  have "(0::nat) < length [''zz'', ''9a96caca'', ''zz'']"
      "(2::nat) < length [''zz'', ''9a96caca'', ''zz'']"
      "[''zz'', ''9a96caca'', ''zz''] ! 0 = [''zz'', ''9a96caca'', ''zz''] ! 2"
    by simp_all
  with b r have "res ! 0 = res ! 2"
    by blast
  with b02 a01 v1 v2 r show ?thesis
    by simp
qed

subsection \<open>Reviews built from one relationship\<close>

text \<open>
  C7. Every \<open>Review\<close> that \<open>Review.from_relationship\<close> builds takes all its fields from
  the one relationship it is given: the author is \<open>User.from_node\<close> of the start node, the
  business is \<open>Business.from_node\<close> of the end node, and id, rating and comment are the
  relationship's element id and what its subscripts \<open>rating\<close> and \<open>comment\<close> give, \<open>None\<close>
  for a property it lacks. The function has no service or driver among its arguments, so
  it issues no lookup. It builds a \<open>Review\<close> for every relationship that has both its
  nodes, with the fields spelled out below, and raises for a node and for a relationship
  that lacks a node.
\<close>

theorem review_from_single_relationship:
  "(Review_from_relationship relationship = Inr review \<longrightarrow>
      (\<exists>s e. start_node relationship = Inr s \<and> end_node relationship = Inr e
         \<and> User_from_node s = Inr (r_author review)
         \<and> Business_from_node e = Inr (r_business review))
      \<and> r_id review = element_id relationship
      \<and> r_rating review = entity_getitem relationship ''rating''
      \<and> r_comment review = entity_getitem relationship ''comment'')
   \<and> Review_from_relationship (Relationship i ps (Some u) (Some b))
       = Inr \<lparr>r_id = i,
              r_rating = entity_getitem (Relationship i ps (Some u) (Some b)) ''rating'',
              r_comment = entity_getitem (Relationship i ps (Some u) (Some b)) ''comment'',
              r_author = \<lparr>u_id = entity_getitem u ''externalID'',
                          u_name = entity_getitem u ''name'',
                          u_email = entity_getitem u ''email''\<rparr>,
              r_business = \<lparr>b_id = entity_getitem b ''externalID'',
                            b_name = entity_getitem b ''name'',
                            b_description = entity_getitem b ''description''\<rparr>\<rparr>
   \<and> Review_from_relationship (Node i ps) = Inl (AttributeError ''start_node'')
   \<and> Review_from_relationship (Relationship i ps None e) = Inl TypeError
   \<and> Review_from_relationship (Relationship i ps (Some u) None) = Inl TypeError"
  by (auto simp: Review_from_relationship_def ebind_def split: sum.splits)

theorem review_from_single_relationship_witness:
  "Review_from_relationship van_joes = Inr van_joes_review
   \<and> User_from_node (Some van_node) = Inr (r_author van_joes_review)
   \<and> Business_from_node (Some joes_node) = Inr (r_business van_joes_review)
   \<and> r_id van_joes_review = ''5:r:0''
   \<and> r_rating van_joes_review = PInt 4
   \<and> r_comment van_joes_review = PStr ''Food is good but too expensive.''
   \<and> Review_from_relationship van_bare = Inr van_bare_review
   \<and> r_comment van_bare_review = PNone
   \<and> Business_from_node (Some bare_node) = Inr (r_business van_bare_review)"
proof -
  have h: "Review_from_relationship van_joes = Inr van_joes_review"
    by (simp add: Review_from_relationship_def ebind_def seed_graph_defs)
  have b: "Review_from_relationship van_bare = Inr van_bare_review"
    by (simp add: Review_from_relationship_def ebind_def other_graph_defs)
  note full = review_from_single_relationship
    [of van_joes van_joes_review, THEN conjunct1, THEN mp, OF h]
  note bare = review_from_single_relationship
    [of van_bare van_bare_review, THEN conjunct1, THEN mp, OF b]
  from full have "User_from_node (Some van_node) = Inr (r_author van_joes_review)"
      "Business_from_node (Some joes_node) = Inr (r_business van_joes_review)"
      "r_id van_joes_review = ''5:r:0''"
      "r_rating van_joes_review = PInt 4"
      "r_comment van_joes_review = PStr ''Food is good but too expensive.''"
    by (auto simp: van_joes_def)
  moreover from bare have "r_comment van_bare_review = PNone"
      "Business_from_node (Some bare_node) = Inr (r_business van_bare_review)"
    by (auto simp: van_bare_def)
  ultimately show ?thesis
    using h b by simp
qed

subsection \<open>Where the batch function gets its backend\<close>

text \<open>
  C6 as stated does not hold. The claim says that the graphdb batch function receives its
  backend as an injected dependency rather than from ambient global state. The batch
  function has no such argument: it calls \<open>Neo4jDAO()\<close>, and what it returns changes with
  the module-level \<open>NEO4JSERVICE\<close> alone. For the one key of Joes it returns the two seeded
  reviews when the global is the seeded service and no review when the global is the
  service over the empty graph.
\<close>

theorem batch_backend_is_ambient_counterexample:
  "fst (graphdb_dataloader_business_reviews seed_service [''9a96caca''])
     = Inr [[van_joes_review, emma_joes_review]]
   \<and> fst (graphdb_dataloader_business_reviews empty_service [''9a96caca'']) = Inr [[]]
   \<and> fst (graphdb_dataloader_business_reviews seed_service [''9a96caca''])
     \<noteq> fst (graphdb_dataloader_business_reviews empty_service [''9a96caca''])"
  by (simp add: graphdb_reviews_eq dao_read_defs seed_graph_defs empty_service_def)

text \<open>
  C6, amended. A \<open>Neo4jDAO\<close> constructed with a service argument holds exactly that
  service and every one of its operations runs on it: each of the seven operations makes
  one service call, that call is on the service given, and the outcome of the operation
  is fixed by what that service answers in the transaction the operation uses, whatever
  the global \<open>NEO4JSERVICE\<close> is. Constructed without an argument the DAO holds the global.
  The graphdb batch function constructs its DAO without an argument, so its backend is the
  global \<open>NEO4JSERVICE\<close>: its one service call is on the global, and it returns the
  grouping of what a DAO over the global returns.
\<close>

theorem dao_service_injected_batch_backend_global:
  "service (Neo4jDAO g (Some s)) = s
   \<and> map target (snd (upsert_user get_full_name str (Neo4jDAO g (Some s)) usr)) = [s]
   \<and> map target (snd (upsert_business (Neo4jDAO g (Some s)) external_id name description)) = [s]
   \<and> map target (snd (upsert_category (Neo4jDAO g (Some s)) name description)) = [s]
   \<and> map target (snd (upsert_business_category (Neo4jDAO g (Some s)) business category)) = [s]
   \<and> map target (snd (upsert_review (Neo4jDAO g (Some s)) business author rating' comment'))
       = [s]
   \<and> map target (snd (get_businesses (Neo4jDAO g (Some s)))) = [s]
   \<and> map target (snd (get_reviews_of_businesses (Neo4jDAO g (Some s)) business_ids)) = [s]
   \<and> ((\<forall>query ps. write_tx_run (driver s) query ps = write_tx_run (driver s') query ps) \<longrightarrow>
        fst (upsert_user get_full_name str (Neo4jDAO g (Some s)) usr)
          = fst (upsert_user get_full_name str (Neo4jDAO g' (Some s')) usr)
      \<and> fst (upsert_business (Neo4jDAO g (Some s)) external_id name description)
          = fst (upsert_business (Neo4jDAO g' (Some s')) external_id name description)
      \<and> fst (upsert_category (Neo4jDAO g (Some s)) name description)
          = fst (upsert_category (Neo4jDAO g' (Some s')) name description)
      \<and> fst (upsert_business_category (Neo4jDAO g (Some s)) business category)
          = fst (upsert_business_category (Neo4jDAO g' (Some s')) business category)
      \<and> fst (upsert_review (Neo4jDAO g (Some s)) business author rating' comment')
          = fst (upsert_review (Neo4jDAO g' (Some s')) business author rating' comment'))
   \<and> ((\<forall>query ps. read_tx_run (driver s) query ps = read_tx_run (driver s') query ps) \<longrightarrow>
        fst (get_businesses (Neo4jDAO g (Some s))) = fst (get_businesses (Neo4jDAO g' (Some s')))
      \<and> fst (get_reviews_of_businesses (Neo4jDAO g (Some s)) business_ids)
          = fst (get_reviews_of_businesses (Neo4jDAO g' (Some s')) business_ids))
   \<and> service (Neo4jDAO g None) = g
   \<and> map target (snd (graphdb_dataloader_business_reviews g keys)) = [g]
   \<and> fst (graphdb_dataloader_business_reviews g keys)
       = ebind (fst (get_reviews_of_businesses \<lparr>service = g\<rparr> keys))
           (\<lambda>reviews.
              if \<forall>r\<in>set reviews. hashable (b_id (r_business r))
              then Inr (map (\<lambda>pk. filter (\<lambda>r. b_id (r_business r) = PStr pk) reviews) keys)
              else Inl TypeError)"
proof -
  have dao: "Neo4jDAO g (Some s) = \<lparr>service = s\<rparr>" "Neo4jDAO g' (Some s') = \<lparr>service = s'\<rparr>"
      "Neo4jDAO g None = \<lparr>service = g\<rparr>"
    by (simp_all add: Neo4jDAO_def)
  have calls:
    "map target (snd (upsert_user get_full_name str \<lparr>service = s\<rparr> usr)) = [s]"
    "map target (snd (upsert_business \<lparr>service = s\<rparr> external_id name description)) = [s]"
    "map target (snd (upsert_category \<lparr>service = s\<rparr> name description)) = [s]"
    "map target (snd (upsert_business_category \<lparr>service = s\<rparr> business category)) = [s]"
    "map target (snd (upsert_review \<lparr>service = s\<rparr> business author rating' comment')) = [s]"
    "map target (snd (get_businesses \<lparr>service = s\<rparr>)) = [s]"
    "map target (snd (get_reviews_of_businesses \<lparr>service = s\<rparr> business_ids)) = [s]"
    by (simp_all add: upsert_user_def upsert_business_def upsert_category_def
        upsert_business_category_def upsert_review_def get_businesses_def
        get_reviews_of_businesses_def session_write_def session_read_def and_then_def)
  have writes:
    "fst (upsert_user get_full_name str \<lparr>service = s\<rparr> usr)
       = fst (upsert_user get_full_name str \<lparr>service = s'\<rparr> usr)"
    "fst (upsert_business \<lparr>service = s\<rparr> external_id name description)
       = fst (upsert_business \<lparr>service = s'\<rparr> external_id name description)"
    "fst (upsert_category \<lparr>service = s\<rparr> name description)
       = fst (upsert_category \<lparr>service = s'\<rparr> name description)"
    "fst (upsert_business_category \<lparr>service = s\<rparr> business category)
       = fst (upsert_business_category \<lparr>service = s'\<rparr> business category)"
    "fst (upsert_review \<lparr>service = s\<rparr> business author rating' comment')
       = fst (upsert_review \<lparr>service = s'\<rparr> business author rating' comment')"
    if "\<forall>query ps. write_tx_run (driver s) query ps = write_tx_run (driver s') query ps"
    using that
    by (simp_all add: upsert_user_def upsert_business_def upsert_category_def
        upsert_business_category_def upsert_review_def session_write_def and_then_def)
  have reads:
    "fst (get_businesses \<lparr>service = s\<rparr>) = fst (get_businesses \<lparr>service = s'\<rparr>)"
    "fst (get_reviews_of_businesses \<lparr>service = s\<rparr> business_ids)
       = fst (get_reviews_of_businesses \<lparr>service = s'\<rparr> business_ids)"
    if "\<forall>query ps. read_tx_run (driver s) query ps = read_tx_run (driver s') query ps"
    using that
    by (simp_all add: get_businesses_def get_reviews_of_businesses_def session_read_def)
  have batch_calls: "map target (snd (graphdb_dataloader_business_reviews g keys)) = [g]"
    by (simp add: graphdb_dataloader_business_reviews_def Let_def and_then_def dao
        get_reviews_of_businesses_def session_read_def)
  have batch: "fst (graphdb_dataloader_business_reviews g keys)
       = ebind (fst (get_reviews_of_businesses \<lparr>service = g\<rparr> keys))
           (\<lambda>reviews.
              if \<forall>r\<in>set reviews. hashable (b_id (r_business r))
              then Inr (map (\<lambda>pk. filter (\<lambda>r. b_id (r_business r) = PStr pk) reviews) keys)
              else Inl TypeError)"
    using graphdb_reviews_eq [of g keys] by (simp add: dao)
  show ?thesis
    unfolding dao using calls writes reads batch_calls batch by simp
qed

theorem dao_service_injected_batch_backend_global_witness:
  "fst (upsert_review (Neo4jDAO listed_service (Some bare_service))
          (r_business van_bare_review) (r_author van_bare_review) 4 ''ok'')
     = Inr van_bare_review
   \<and> fst (upsert_review (Neo4jDAO empty_service (Some write_only_service))
          (r_business van_bare_review) (r_author van_bare_review) 4 ''ok'')
     = Inr van_bare_review
   \<and> fst (get_reviews_of_businesses (Neo4jDAO listed_service (Some seed_service))
          [''zz'', ''9a96caca'', ''zz''])
     = Inr [van_joes_review, emma_joes_review]
   \<and> fst (get_reviews_of_businesses (Neo4jDAO empty_service (Some seed_reader_service))
          [''zz'', ''9a96caca'', ''zz''])
     = Inr [van_joes_review, emma_joes_review]"
proof -
  note t = dao_service_injected_batch_backend_global
    [where g = listed_service and g' = empty_service]
  have w: "\<forall>query ps. write_tx_run (driver bare_service) query ps
      = write_tx_run (driver write_only_service) query ps"
    by (simp add: bare_service_def write_only_service_def)
  have r: "\<forall>query ps. read_tx_run (driver seed_service) query ps
      = read_tx_run (driver seed_reader_service) query ps"
    by (simp add: seed_service_def seed_reader_service_def)
  note writes = t [where s = bare_service and s' = write_only_service,
      THEN conjunct2, THEN conjunct2, THEN conjunct2, THEN conjunct2, THEN conjunct2,
      THEN conjunct2, THEN conjunct2, THEN conjunct2, THEN conjunct1, THEN mp, OF w]
  note reads = t [where s = seed_service and s' = seed_reader_service,
      THEN conjunct2, THEN conjunct2, THEN conjunct2, THEN conjunct2, THEN conjunct2,
      THEN conjunct2, THEN conjunct2, THEN conjunct2, THEN conjunct2, THEN conjunct1,
      THEN mp, OF r]
  have a: "fst (upsert_review (Neo4jDAO listed_service (Some bare_service))
          (r_business van_bare_review) (r_author van_bare_review) 4 ''ok'')
     = Inr van_bare_review"
    by (simp add: upsert_review_def session_write_def and_then_def Neo4jDAO_def ebind_def
        record_getitem_def Review_from_relationship_def other_graph_defs)
  have "fst (upsert_review (Neo4jDAO listed_service (Some bare_service))
          (r_business van_bare_review) (r_author van_bare_review) 4 ''ok'')
     = fst (upsert_review (Neo4jDAO empty_service (Some write_only_service))
          (r_business van_bare_review) (r_author van_bare_review) 4 ''ok'')"
    by (rule writes [THEN conjunct2, THEN conjunct2, THEN conjunct2, THEN conjunct2])
  with a have b: "fst (upsert_review (Neo4jDAO empty_service (Some write_only_service))
          (r_business van_bare_review) (r_author van_bare_review) 4 ''ok'')
     = Inr van_bare_review"
    by simp
  have c: "fst (get_reviews_of_businesses (Neo4jDAO listed_service (Some seed_service))
          [''zz'', ''9a96caca'', ''zz''])
     = Inr [van_joes_review, emma_joes_review]"
    by (simp add: dao_read_defs seed_graph_defs)
  have "fst (get_reviews_of_businesses (Neo4jDAO listed_service (Some seed_service))
          [''zz'', ''9a96caca'', ''zz''])
     = fst (get_reviews_of_businesses (Neo4jDAO empty_service (Some seed_reader_service))
          [''zz'', ''9a96caca'', ''zz''])"
    by (rule reads [THEN conjunct2])
  with c have d: "fst (get_reviews_of_businesses (Neo4jDAO empty_service (Some seed_reader_service))
          [''zz'', ''9a96caca'', ''zz''])
     = Inr [van_joes_review, emma_joes_review]"
    by simp
  from a b c d show ?thesis
    by (intro conjI)
qed

subsection \<open>The loader set of a request\<close>

text \<open>The middleware's own step on a context that has no loaders yet, and on one that has.\<close>

lemma middleware_installs:
  "data_loaders ctx = None \<Longrightarrow>
     data_loader_middleware nxt root ctx args =
       nxt root
         \<lparr>data_loaders =
            Some [''business_review'' \<mapsto>
                    \<lparr>loader_id = constructed ctx,
                     batch_load_fn = Business_review_data_loader\<rparr>,
                  ''review_author'' \<mapsto>
                    \<lparr>loader_id = Suc (constructed ctx),
                     batch_load_fn = Review_author_data_loader\<rparr>],
          constructed = Suc (Suc (constructed ctx))\<rparr>
         args"
  by (cases ctx)
    (simp add: data_loader_middleware_def graphene_USE_DATALOADERS_def
      hasattr_data_loaders_def SyncDataLoader_def)

lemma middleware_keeps:
  "data_loaders ctx = Some m \<Longrightarrow>
     data_loader_middleware nxt root ctx args = nxt root ctx args"
  by (simp add: data_loader_middleware_def graphene_USE_DATALOADERS_def
      hasattr_data_loaders_def)

lemma invocations_keep:
  "data_loaders ctx = Some m \<Longrightarrow>
   \<forall>(nxt, root, args)\<in>set calls. \<forall>c. data_loaders (snd (nxt root c args)) = data_loaders c \<Longrightarrow>
     data_loaders (invocations calls ctx) = Some m"
proof (induction calls arbitrary: ctx)
  case Nil
  then show ?case by simp
next
  case (Cons call calls)
  obtain nxt root args where call: "call = (nxt, root, args)"
    by (cases call)
  from Cons.prems(2) call
  have step: "data_loaders (snd (nxt root ctx args)) = data_loaders ctx"
    by simp
  from Cons.prems(2) have rest:
    "\<forall>(nxt, root, args)\<in>set calls. \<forall>c. data_loaders (snd (nxt root c args)) = data_loaders c"
    by simp
  show ?case
    using Cons.IH [OF _ rest] Cons.prems(1) step call
    by (simp add: middleware_keeps)
qed

lemma invocations_constructed:
  "data_loaders ctx = Some m \<Longrightarrow>
   \<forall>(nxt, root, args)\<in>set calls. \<forall>c. snd (nxt root c args) = c \<Longrightarrow>
     invocations calls ctx = ctx"
proof (induction calls arbitrary: ctx)
  case Nil
  then show ?case by simp
next
  case (Cons call calls)
  obtain nxt root args where call: "call = (nxt, root, args)"
    by (cases call)
  from Cons.prems(2) call have step: "snd (nxt root ctx args) = ctx"
    by simp
  from Cons.prems(2) have rest:
    "\<forall>(nxt, root, args)\<in>set calls. \<forall>c. snd (nxt root c args) = c"
    by simp
  show ?case
    using Cons.IH [OF _ rest] Cons.prems(1) step call
    by (simp add: middleware_keeps)
qed

text \<open>
  C5. The loader set is constructed once per request. Take any sequence of invocations
  of the middleware on one request context that starts without the attribute
  \<open>data_loaders\<close>, the resolver chains \<open>next\<close> leaving that attribute as they find it. The
  first invocation installs a mapping with exactly the names \<open>business_review\<close> and
  \<open>review_author\<close>, bound to two newly constructed loaders over the two batch functions,
  and after every later invocation the context still holds that same mapping. When the
  resolver chains leave the whole context alone, two loaders and no more have been
  constructed at the end.
\<close>

theorem loader_set_installed_once:
  assumes "data_loaders ctx = None"
    and "\<forall>(nxt, root, args)\<in>set (first # later).
           \<forall>c. data_loaders (snd (nxt root c args)) = data_loaders c"
  shows "\<exists>m. data_loaders (invocations [first] ctx) = Some m
           \<and> dom m = {''business_review'', ''review_author''}
           \<and> m ''business_review''
               = Some \<lparr>loader_id = constructed ctx,
                        batch_load_fn = Business_review_data_loader\<rparr>
           \<and> m ''review_author''
               = Some \<lparr>loader_id = Suc (constructed ctx),
                        batch_load_fn = Review_author_data_loader\<rparr>
           \<and> (\<forall>n\<le>length later.
                 data_loaders (invocations (first # take n later) ctx) = Some m)
           \<and> ((\<forall>(nxt, root, args)\<in>set (first # later). \<forall>c. snd (nxt root c args) = c) \<longrightarrow>
                 constructed (invocations (first # later) ctx)
                   = constructed ctx + 2)"
proof -
  obtain nxt root args where first: "first = (nxt, root, args)"
    by (cases first)
  define installed where "installed =
    \<lparr>data_loaders =
       Some [''business_review'' \<mapsto>
               \<lparr>loader_id = constructed ctx, batch_load_fn = Business_review_data_loader\<rparr>,
             ''review_author'' \<mapsto>
               \<lparr>loader_id = Suc (constructed ctx),
                batch_load_fn = Review_author_data_loader\<rparr>],
     constructed = Suc (Suc (constructed ctx))\<rparr>"
  define m where "m =
    [''business_review'' \<mapsto>
       \<lparr>loader_id = constructed ctx, batch_load_fn = Business_review_data_loader\<rparr>,
     ''review_author'' \<mapsto>
       \<lparr>loader_id = Suc (constructed ctx), batch_load_fn = Review_author_data_loader\<rparr>]"
  define after where "after = snd (nxt root installed args)"
  have run1: "invocations (first # calls) ctx = invocations calls after" for calls
    using assms(1) by (simp add: first middleware_installs after_def installed_def)
  from assms(2) have "data_loaders after = data_loaders installed"
    by (simp add: first after_def)
  then have after_m: "data_loaders after = Some m"
    by (simp add: installed_def m_def)
  have one: "data_loaders (invocations [first] ctx) = Some m"
    using run1 [of "[]"] after_m by simp
  have dom_m: "dom m = {''business_review'', ''review_author''}"
    by (auto simp: m_def)
  have later_m: "data_loaders (invocations (first # take n later) ctx) = Some m" for n
  proof -
    have "\<forall>(nxt, root, args)\<in>set (take n later).
            \<forall>c. data_loaders (snd (nxt root c args)) = data_loaders c"
      using assms(2) set_take_subset [of n later] by fastforce
    from invocations_keep [OF after_m this] show ?thesis
      by (simp add: run1)
  qed
  have count: "constructed (invocations (first # later) ctx) = constructed ctx + 2"
    if idle: "\<forall>(nxt, root, args)\<in>set (first # later). \<forall>c. snd (nxt root c args) = c"
  proof -
    from idle have "after = installed"
      by (simp add: first after_def)
    moreover from idle have "\<forall>(nxt, root, args)\<in>set later. \<forall>c. snd (nxt root c args) = c"
      by simp
    ultimately have "invocations later after = installed"
      using invocations_constructed [OF after_m] by simp
    then show ?thesis
      by (simp add: run1 installed_def)
  qed
  show ?thesis
    using one dom_m later_m count by (intro exI [of _ m]) (simp add: m_def)
qed

theorem loader_set_installed_once_witness:
  "data_loaders (invocations [(resolve_name, van, ())] \<lparr>data_loaders = None, constructed = 0\<rparr>)
     = Some [''business_review'' \<mapsto>
               \<lparr>loader_id = 0, batch_load_fn = Business_review_data_loader\<rparr>,
             ''review_author'' \<mapsto>
               \<lparr>loader_id = 1, batch_load_fn = Review_author_data_loader\<rparr>]
   \<and> data_loaders
        (invocations [(resolve_name, van, ()), (resolve_name, emma, ()), (resolve_name, van, ())]
           \<lparr>data_loaders = None, constructed = 0\<rparr>)
     = Some [''business_review'' \<mapsto>
               \<lparr>loader_id = 0, batch_load_fn = Business_review_data_loader\<rparr>,
             ''review_author'' \<mapsto>
               \<lparr>loader_id = 1, batch_load_fn = Review_author_data_loader\<rparr>]
   \<and> constructed
        (invocations [(resolve_name, van, ()), (resolve_name, emma, ()), (resolve_name, van, ())]
           \<lparr>data_loaders = None, constructed = 0\<rparr>) = 2"
proof -
  let ?c = "\<lparr>data_loaders = None, constructed = 0\<rparr>"
  let ?first = "(resolve_name, van, ())"
  let ?later = "[(resolve_name, emma, ()), (resolve_name, van, ())]"
  have fresh: "data_loaders ?c = None"
    by simp
  have idle: "\<forall>(nxt, root, args)\<in>set (?first # ?later). \<forall>c. snd (nxt root c args) = c"
    by (simp add: resolve_name_def)
  then have keep: "\<forall>(nxt, root, args)\<in>set (?first # ?later).
      \<forall>c. data_loaders (snd (nxt root c args)) = data_loaders c"
    by simp
  from loader_set_installed_once [OF fresh keep]
  obtain m where one: "data_loaders (invocations [?first] ?c) = Some m"
    and later: "\<forall>n\<le>length ?later.
        data_loaders (invocations (?first # take n ?later) ?c) = Some m"
    and count: "(\<forall>(nxt, root, args)\<in>set (?first # ?later). \<forall>c. snd (nxt root c args) = c) \<longrightarrow>
        constructed (invocations (?first # ?later) ?c) = constructed ?c + 2"
    by (elim exE conjE) (rule that, assumption+)
  have installed: "data_loaders (invocations [?first] ?c)
      = Some [''business_review'' \<mapsto>
                \<lparr>loader_id = 0, batch_load_fn = Business_review_data_loader\<rparr>,
              ''review_author'' \<mapsto>
                \<lparr>loader_id = 1, batch_load_fn = Review_author_data_loader\<rparr>]"
    by (simp add: data_loader_middleware_def graphene_USE_DATALOADERS_def
        hasattr_data_loaders_def SyncDataLoader_def resolve_name_def)
  with one have m: "m = [''business_review'' \<mapsto>
                \<lparr>loader_id = 0, batch_load_fn = Business_review_data_loader\<rparr>,
              ''review_author'' \<mapsto>
                \<lparr>loader_id = 1, batch_load_fn = Review_author_data_loader\<rparr>]"
    by simp
  from later [rule_format, of 2]
  have all: "data_loaders (invocations (?first # ?later) ?c) = Some m"
    by simp
  from count idle
  have two: "constructed (invocations (?first # ?later) ?c) = 2"
    by simp
  from installed all two show ?thesis
    unfolding m by (intro conjI)
qed


subsection \<open>Keys sent to the batch function\<close>

text \<open>
  The keys a loader has sent or is about to send: the batches so far, then the pending
  keys. Settling handles does not touch them, a flush moves the pending keys into a
  batch, and \<open>load\<close> appends a key exactly when the cache does not hold it.
\<close>

lemma settle_frame:
  "cache (settle key outcome l) = cache l \<and> pending (settle key outcome l) = pending l
   \<and> batches (settle key outcome l) = batches l \<and> batch_fn (settle key outcome l) = batch_fn l"
  by (simp add: settle_def split: option.splits)

lemma settle_all_frame:
  "cache (foldl (\<lambda>l key. settle key outcome l) l keys) = cache l
   \<and> pending (foldl (\<lambda>l key. settle key outcome l) l keys) = pending l
   \<and> batches (foldl (\<lambda>l key. settle key outcome l) l keys) = batches l"
  by (induction keys arbitrary: l) (simp_all add: settle_frame)

lemma settle_each_frame:
  "cache (foldl (\<lambda>l (key, result). settle key (Settled result) l) l pairs) = cache l
   \<and> pending (foldl (\<lambda>l (key, result). settle key (Settled result) l) l pairs) = pending l
   \<and> batches (foldl (\<lambda>l (key, result). settle key (Settled result) l) l pairs) = batches l"
  by (induction pairs arbitrary: l) (simp_all add: settle_frame split: prod.splits)

lemma flush_frame:
  "cache (flush l) = cache l
   \<and> concat (batches (flush l)) @ pending (flush l) = concat (batches l) @ pending l"
  by (simp add: flush_def Let_def settle_all_frame settle_each_frame split: option.splits)

lemma flush_sends_pending:
  "pending (flush l) = [] \<and> concat (batches (flush l)) = concat (batches l) @ pending l"
  by (simp add: flush_def Let_def settle_all_frame settle_each_frame split: option.splits)

lemma load_frame:
  "batches (snd (load key l)) = batches l
   \<and> pending (snd (load key l)) = (if key \<in> dom (cache l) then pending l else pending l @ [key])
   \<and> dom (cache (snd (load key l))) = insert key (dom (cache l))"
  by (auto simp: load_def split: option.splits)

lemma first_occurrences_snoc:
  "first_occurrences (keys @ [key])
     = (if key \<in> set keys then first_occurrences keys else first_occurrences keys @ [key])"
  by (simp add: first_occurrences_def)

lemma loaded_keys_append:
  "loaded_keys (events @ later) = loaded_keys events @ loaded_keys later"
  by (induction events rule: loaded_keys.induct) simp_all

lemma window_sent:
  "concat (batches (window f events)) @ pending (window f events)
     = first_occurrences (loaded_keys events)
   \<and> dom (cache (window f events)) = set (loaded_keys events)"
proof (induction events rule: rev_induct)
  case Nil
  show ?case
    by (simp add: window_def new_loader_def first_occurrences_def)
next
  case (snoc event events)
  show ?case
  proof (cases event)
    case (Load key)
    with snoc show ?thesis
      by (simp add: window_def load_frame loaded_keys_append first_occurrences_snoc)
  next
    case Flush
    with snoc show ?thesis
      by (simp add: window_def flush_frame loaded_keys_append)
  qed
qed

lemma distinct_first_occurrences: "distinct (first_occurrences keys)"
  by (simp add: first_occurrences_def)

text \<open>
  C2. For every sequence of \<open>load\<close> calls and flushes within one window, starting from a
  newly constructed loader: the key lists given to the batch function, taken together,
  hold each key at most once and, followed by the keys still pending, are the loaded keys
  in first-occurrence order; loading a key that was loaded before in the window leaves
  the pending keys as they are; and a final flush has sent every loaded key.
\<close>

theorem batch_receives_distinct_keys_in_first_occurrence_order:
  "distinct (concat (batches (window f events)))
   \<and> concat (batches (window f events)) @ pending (window f events)
       = first_occurrences (loaded_keys events)
   \<and> (\<forall>key\<in>set (loaded_keys events).
         pending (window f (events @ [Load key])) = pending (window f events)
         \<and> batches (window f (events @ [Load key])) = batches (window f events))
   \<and> concat (batches (window f (events @ [Flush]))) = first_occurrences (loaded_keys events)"
proof -
  have sent: "concat (batches (window f events)) @ pending (window f events)
      = first_occurrences (loaded_keys events)"
    and dom: "dom (cache (window f events)) = set (loaded_keys events)"
    using window_sent [of f events] by simp_all
  have "distinct (concat (batches (window f events)) @ pending (window f events))"
    by (simp only: sent distinct_first_occurrences)
  then have d: "distinct (concat (batches (window f events)))"
    by simp
  have repeat: "pending (window f (events @ [Load key])) = pending (window f events)
      \<and> batches (window f (events @ [Load key])) = batches (window f events)"
    if "key \<in> set (loaded_keys events)" for key
    using that dom by (simp add: window_def load_frame)
  have "concat (batches (window f (events @ [Flush])))
      = concat (batches (window f events)) @ pending (window f events)"
    by (simp add: window_def flush_sends_pending)
  with sent have final: "concat (batches (window f (events @ [Flush])))
      = first_occurrences (loaded_keys events)"
    by simp
  from d sent repeat final show ?thesis
    by blast
qed

theorem batch_receives_distinct_keys_in_first_occurrence_order_witness:
  "batches (window (\<lambda>keys. Some (map Some keys)) [Load 1, Load 2, Load (1::int), Flush])
     = [[1, 2]]
   \<and> pending (window (\<lambda>keys. Some (map Some keys)) [Load 1, Load 2, Load (1::int)]) = [1, 2]
   \<and> batches (window (\<lambda>keys. Some (map Some keys))
        [Load 5, Load 9, Load 5, Flush, Load 9, Load (7::int), Flush]) = [[5, 9], [7]]"
proof -
  let ?f = "\<lambda>keys :: int list. Some (map Some keys)"
  note t = batch_receives_distinct_keys_in_first_occurrence_order
    [of ?f "[Load 1, Load 2]"]
  have "(1::int) \<in> set (loaded_keys [Load 1, Load 2])"
    by simp
  with t have "pending (window ?f ([Load 1, Load 2] @ [Load 1]))
      = pending (window ?f [Load 1, Load 2])"
    by blast
  moreover have "pending (window ?f [Load 1, Load (2::int)]) = [1, 2]"
    by (simp add: window_def new_loader_def load_def)
  ultimately have p: "pending (window ?f [Load 1, Load 2, Load 1]) = [1, 2]"
    by simp
  have b1: "batches (window ?f [Load 1, Load 2, Load 1, Flush]) = [[1, 2]]"
    by (simp add: window_def new_loader_def load_def flush_def settle_def)
  have b2: "batches (window ?f [Load 5, Load 9, Load 5, Flush, Load 9, Load 7, Flush])
      = [[5, 9], [7]]"
    by (simp add: window_def new_loader_def load_def flush_def settle_def)
  from p b1 b2 show ?thesis
    by simp
qed


subsection \<open>The key list after a batch function has returned\<close>

text \<open>Reading a list of keys gives the keys.\<close>

lemma read_keys_keys:
  "keys < length h \<Longrightarrow> h ! keys = map VKey ks \<Longrightarrow> read_keys h keys = Inr ks"
proof -
  have "those (map as_key (map VKey ks :: ('a, 'b) pyval list)) = Some ks"
    by (induction ks) simp_all
  then show "keys < length h \<Longrightarrow> h ! keys = map VKey ks \<Longrightarrow> read_keys h keys = Inr ks"
    by (simp add: read_keys_def)
qed

lemma group_step:
  assumes "length hs \<le> length h"
    and "\<forall>a<length hs. h ! a = hs ! a"
    and "\<forall>k. case d k of
            None \<Rightarrow> \<forall>r\<in>set rows. key r \<noteq> k
          | Some a \<Rightarrow> length hs \<le> a \<and> a < length h
                \<and> h ! a = map VObj (filter (\<lambda>r. key r = k) rows)"
    and "\<forall>k k' a. d k = Some a \<and> d k' = Some a \<longrightarrow> k = k'"
    and "defaultdict_append_on_heap (d, h) (key r) (VObj r) = (d', h')"
  shows "length hs \<le> length h'
    \<and> (\<forall>a<length hs. h' ! a = hs ! a)
    \<and> (\<forall>k. case d' k of
            None \<Rightarrow> \<forall>r\<in>set (rows @ [r]). key r \<noteq> k
          | Some a \<Rightarrow> length hs \<le> a \<and> a < length h'
                \<and> h' ! a = map VObj (filter (\<lambda>r. key r = k) (rows @ [r])))
    \<and> (\<forall>k k' a. d' k = Some a \<and> d' k' = Some a \<longrightarrow> k = k')"
proof (cases "d (key r)")
  case None
  with assms(5) have d': "d' = d(key r \<mapsto> length h)" and h': "h' = h @ [[VObj r]]"
    by (auto simp: defaultdict_append_on_heap_def alloc_def list_append_def)
  have fresh: "a < length h" if "d k = Some a" for k a
    using assms(3) [rule_format, of k] that by simp
  show ?thesis
  proof (intro conjI allI impI)
    show "length hs \<le> length h'" using assms(1) h' by simp
  next
    fix a assume "a < length hs"
    then show "h' ! a = hs ! a" using assms(1,2) h' by (simp add: nth_append)
  next
    fix k
    show "case d' k of
            None \<Rightarrow> \<forall>r\<in>set (rows @ [r]). key r \<noteq> k
          | Some a \<Rightarrow> length hs \<le> a \<and> a < length h'
                \<and> h' ! a = map VObj (filter (\<lambda>r. key r = k) (rows @ [r]))"
    proof (cases "k = key r")
      case True
      from assms(3) [rule_format, of "key r"] None have "\<forall>x\<in>set rows. key x \<noteq> key r"
        by simp
      then have "filter (\<lambda>x. key x = key r) rows = []"
        by (simp add: filter_empty_conv)
      with True show ?thesis using assms(1) by (simp add: d' h')
    next
      case False
      with assms(3) [rule_format, of k] show ?thesis
        by (auto simp: d' h' nth_append split: option.splits)
    qed
  next
    fix k k' a assume "d' k = Some a \<and> d' k' = Some a"
    then show "k = k'"
      using assms(4) fresh by (auto simp: d' split: if_splits)
  qed
next
  case (Some b)
  with assms(5) have d': "d' = d" and h': "h' = h[b := h ! b @ [VObj r]]"
    by (auto simp: defaultdict_append_on_heap_def alloc_def list_append_def)
  from assms(3) [rule_format, of "key r"] Some
  have b: "length hs \<le> b" "b < length h" "h ! b = map VObj (filter (\<lambda>x. key x = key r) rows)"
    by simp_all
  show ?thesis
  proof (intro conjI allI impI)
    show "length hs \<le> length h'" using assms(1) h' by simp
  next
    fix a assume "a < length hs"
    then show "h' ! a = hs ! a" using assms(2) b(1) h' by simp
  next
    fix k
    show "case d' k of
            None \<Rightarrow> \<forall>r\<in>set (rows @ [r]). key r \<noteq> k
          | Some a \<Rightarrow> length hs \<le> a \<and> a < length h'
                \<and> h' ! a = map VObj (filter (\<lambda>r. key r = k) (rows @ [r]))"
    proof (cases "k = key r")
      case True
      with Some b show ?thesis by (simp add: d' h')
    next
      case False
      show ?thesis
      proof (cases "d k")
        case None
        with assms(3) [rule_format, of k] False show ?thesis by (simp add: d')
      next
        case (Some a)
        with \<open>d (key r) = Some b\<close> assms(4) False have "a \<noteq> b" by blast
        with assms(3) [rule_format, of k] Some False show ?thesis by (simp add: d' h')
      qed
    qed
  next
    fix k k' a assume "d' k = Some a \<and> d' k' = Some a"
    then show "k = k'" using assms(4) by (simp add: d')
  qed
qed

lemma group_loop:
  "case foldl (\<lambda>dh r. defaultdict_append_on_heap dh (key r) (VObj r)) (Map.empty, hs) rows of
     (d, h) \<Rightarrow>
       length hs \<le> length h
       \<and> (\<forall>a<length hs. h ! a = hs ! a)
       \<and> (\<forall>k. case d k of
              None \<Rightarrow> \<forall>r\<in>set rows. key r \<noteq> k
            | Some a \<Rightarrow> length hs \<le> a \<and> a < length h
                  \<and> h ! a = map VObj (filter (\<lambda>r. key r = k) rows))
       \<and> (\<forall>k k' a. d k = Some a \<and> d k' = Some a \<longrightarrow> k = k')"
proof (induction rows rule: rev_induct)
  case Nil
  show ?case by simp
next
  case (snoc r rows)
  obtain d h where dh:
    "foldl (\<lambda>dh r. defaultdict_append_on_heap dh (key r) (VObj r)) (Map.empty, hs) rows = (d, h)"
    by (cases "foldl (\<lambda>dh r. defaultdict_append_on_heap dh (key r) (VObj r)) (Map.empty, hs) rows")
  obtain d' h' where dh': "defaultdict_append_on_heap (d, h) (key r) (VObj r) = (d', h')"
    by (cases "defaultdict_append_on_heap (d, h) (key r) (VObj r)")
  from snoc dh have inv:
    "length hs \<le> length h" "\<forall>a<length hs. h ! a = hs ! a"
    "\<forall>k. case d k of
            None \<Rightarrow> \<forall>r\<in>set rows. key r \<noteq> k
          | Some a \<Rightarrow> length hs \<le> a \<and> a < length h
                \<and> h ! a = map VObj (filter (\<lambda>r. key r = k) rows)"
    "\<forall>k k' a. d k = Some a \<and> d k' = Some a \<longrightarrow> k = k'"
    by simp_all
  from group_step [OF inv dh'] show ?case
    by (simp add: dh dh')
qed

lemma get_each_loop:
  "foldl (\<lambda>(vs, h) pk. let (v, h) = dict_get_on_heap d h pk in (vs @ [v], h)) ([], hs) ks
     = (map (\<lambda>(i, pk). case d pk of None \<Rightarrow> VRef (length hs + i) | Some a \<Rightarrow> VRef a)
          (enumerate 0 ks),
        hs @ replicate (length ks) [])"
proof (induction ks rule: rev_induct)
  case Nil
  show ?case by simp
next
  case (snoc pk ks)
  then show ?case
    by (simp add: dict_get_on_heap_def alloc_def enumerate_append_eq replicate_append_same
        split: option.splits)
qed

lemma get_each_on_heap_eq:
  "get_each_on_heap d hs ks
     = (length hs + length ks,
        hs @ replicate (length ks) []
          @ [map (\<lambda>(i, pk). case d pk of None \<Rightarrow> VRef (length hs + i) | Some a \<Rightarrow> VRef a)
               (enumerate 0 ks)])"
  unfolding get_each_on_heap_def get_each_loop by (simp add: alloc_def)

text \<open>
  After grouping and the lookup of every key, no object that was on the heap before is
  changed, and the result, read back, holds under every key the rows with that key.
\<close>

lemma group_then_get_each:
  assumes "foldl (\<lambda>dh r. defaultdict_append_on_heap dh (key r) (VObj r)) (Map.empty, hs) rows
             = (d, h)"
    and "get_each_on_heap (\<lambda>pk. d (conv pk)) h ks = (res, h')"
  shows "(\<forall>a<length hs. h' ! a = hs ! a)
    \<and> length hs \<le> length h' \<and> res < length h'
    \<and> read_lists h' res = map (\<lambda>pk. map Some (filter (\<lambda>r. key r = conv pk) rows)) ks"
proof -
  from group_loop [where key = key and hs = hs and rows = rows] assms(1) have inv:
    "length hs \<le> length h" "\<forall>a<length hs. h ! a = hs ! a"
    "\<forall>k. case d k of
            None \<Rightarrow> \<forall>r\<in>set rows. key r \<noteq> k
          | Some a \<Rightarrow> length hs \<le> a \<and> a < length h
                \<and> h ! a = map VObj (filter (\<lambda>r. key r = k) rows)"
    by simp_all
  let ?vs = "map (\<lambda>(i, pk). case d (conv pk) of None \<Rightarrow> VRef (length h + i) | Some a \<Rightarrow> VRef a)
               (enumerate 0 ks)"
  from assms(2) have res: "res = length h + length ks"
    and h': "h' = h @ replicate (length ks) [] @ [?vs]"
    by (simp_all add: get_each_on_heap_eq)
  have old: "\<forall>a<length hs. h' ! a = hs ! a"
    using inv(1,2) by (simp add: h' nth_append)
  have at_res: "h' ! res = ?vs"
    by (simp add: h' res nth_append)
  have obj: "map obj_of (map VObj xs :: ('c, 'b) pyval list) = map Some xs" for xs :: "'b list"
    by (induction xs) simp_all
  have each: "(case (case d (conv (ks ! i)) of None \<Rightarrow> VRef (length h + i) | Some a \<Rightarrow> VRef a)
        of VRef b \<Rightarrow> map obj_of (h' ! b) | _ \<Rightarrow> [])
      = map Some (filter (\<lambda>r. key r = conv (ks ! i)) rows)" if i: "i < length ks" for i
  proof (cases "d (conv (ks ! i))")
    case None
    with inv(3) [rule_format, of "conv (ks ! i)"] have "filter (\<lambda>r. key r = conv (ks ! i)) rows = []"
      by (simp add: filter_empty_conv)
    with None i show ?thesis
      by (simp add: h' nth_append)
  next
    case (Some a)
    with inv(3) [rule_format, of "conv (ks ! i)"]
    have "a < length h" "h ! a = map VObj (filter (\<lambda>r. key r = conv (ks ! i)) rows)"
      by simp_all
    with Some i show ?thesis
      by (simp add: h' nth_append obj)
  qed
  have "read_lists h' res = map (\<lambda>pk. map Some (filter (\<lambda>r. key r = conv pk) rows)) ks"
    unfolding read_lists_def at_res
    by (rule nth_equalityI) (simp_all add: nth_enumerate_eq each)
  with old inv(1) show ?thesis
    by (simp add: h' res)
qed

lemma grouped_result:
  "\<exists>res h'.
     (case foldl (\<lambda>dh r. defaultdict_append_on_heap dh (key r) (VObj r)) (Map.empty, hs) rows of
        (d, h) \<Rightarrow> Inr (get_each_on_heap (\<lambda>pk. d (conv pk)) h ks))
       = (Inr (res, h') :: py_error + nat \<times> ('k, 'e) heap)
     \<and> (\<forall>a<length hs. h' ! a = hs ! a)
     \<and> read_lists h' res = map (\<lambda>pk. map Some (filter (\<lambda>r. key r = conv pk) rows)) ks"
proof -
  obtain d h where dh:
    "foldl (\<lambda>dh r. defaultdict_append_on_heap dh (key r) (VObj r)) (Map.empty, hs) rows = (d, h)"
    by (cases "foldl (\<lambda>dh r. defaultdict_append_on_heap dh (key r) (VObj r)) (Map.empty, hs) rows")
  obtain res h' where get: "get_each_on_heap (\<lambda>pk. d (conv pk)) h ks = (res, h')"
    by (cases "get_each_on_heap (\<lambda>pk. d (conv pk)) h ks")
  from group_then_get_each [OF dh get] show ?thesis
    by (simp add: dh get)
qed

lemma indexed_result:
  "\<exists>res h'. get_each_none_on_heap d hs ks = (res, h')
     \<and> (\<forall>a<length hs. h' ! a = hs ! a)
     \<and> read_optionals h' res = map (dict_get_none d) ks"
  by (auto simp: get_each_none_on_heap_def alloc_def read_optionals_def nth_append
      dict_get_none_def split: option.splits)

lemma ariadne_reviews_on_heap:
  assumes "keys < length h" and "h ! keys = map VKey ks"
  shows "\<exists>res h'. ariadne_get_reviews_for_businesses_on_heap q h keys = Inr (res, h')
     \<and> (\<forall>a<length h. h' ! a = h ! a)
     \<and> read_lists h' res = map (map Some) (ariadne_get_reviews_for_businesses q ks)"
  using grouped_result [where key = business_id and conv = "\<lambda>k. k" and hs = h
      and rows = "q ks" and ks = ks]
  by (simp add: ariadne_get_reviews_for_businesses_on_heap_def read_keys_keys [OF assms]
      ebind_def dict_of_def ariadne_reviews_eq comp_def)

lemma graphene_reviews_on_heap:
  assumes "keys < length h" and "h ! keys = map VKey ks"
  shows "\<exists>res h'. graphene_business_review_data_loader_on_heap q h keys = Inr (res, h')
     \<and> (\<forall>a<length h. h' ! a = h ! a)
     \<and> read_lists h' res = map (map Some) (graphene_business_review_data_loader q ks)"
  using grouped_result [where key = business_id and conv = "\<lambda>k. k" and hs = h
      and rows = "q ks" and ks = ks]
  by (simp add: graphene_business_review_data_loader_on_heap_def read_keys_keys [OF assms]
      ebind_def graphene_reviews_eq comp_def)

lemma strawberry_reviews_on_heap:
  assumes "keys < length h" and "h ! keys = map VKey ks"
  shows "\<exists>res h'. strawberry_dataloader_business_reviews_on_heap q h keys = Inr (res, h')
     \<and> (\<forall>a<length h. h' ! a = h ! a)
     \<and> read_lists h' res = map (map Some) (strawberry_dataloader_business_reviews q ks)"
  using grouped_result [where key = business_id and conv = "\<lambda>k. k" and hs = h
      and rows = "q ks" and ks = ks]
  by (simp add: strawberry_dataloader_business_reviews_on_heap_def read_keys_keys [OF assms]
      ebind_def strawberry_reviews_eq comp_def)

lemma ariadne_authors_on_heap:
  assumes "keys < length h" and "h ! keys = map VKey ks"
  shows "\<exists>res h'. ariadne_get_authors_for_reviews_on_heap q h keys = Inr (res, h')
     \<and> (\<forall>a<length h. h' ! a = h ! a)
     \<and> read_optionals h' res = ariadne_get_authors_for_reviews q ks"
  using indexed_result [of "foldl (\<lambda>d review. dict_setitem d (review_id review) (user review))
      Map.empty (q ks)" h ks]
  by (simp add: ariadne_get_authors_for_reviews_on_heap_def read_keys_keys [OF assms]
      ebind_def ariadne_get_authors_for_reviews_def)

lemma graphene_authors_on_heap:
  assumes "keys < length h" and "h ! keys = map VKey ks"
  shows "\<exists>res h'. graphene_review_author_data_loader_on_heap q h keys = Inr (res, h')
     \<and> (\<forall>a<length h. h' ! a = h ! a)
     \<and> read_optionals h' res = graphene_review_author_data_loader q ks"
  using indexed_result [of "foldl (\<lambda>d r. dict_setitem d (review_id r) (user r))
      Map.empty (q ks)" h ks]
  by (simp add: graphene_review_author_data_loader_on_heap_def read_keys_keys [OF assms]
      ebind_def graphene_review_author_data_loader_def)

lemma strawberry_authors_on_heap:
  assumes "keys < length h" and "h ! keys = map VKey ks"
  shows "\<exists>res h'. strawberry_dataloader_review_author_on_heap q h keys = Inr (res, h')
     \<and> (\<forall>a<length h. h' ! a = h ! a)
     \<and> read_optionals h' res = strawberry_dataloader_review_author q ks"
  using indexed_result [of "foldl (\<lambda>d r. dict_setitem d (review_id r) (user r))
      Map.empty (q ks)" h ks]
  by (simp add: strawberry_dataloader_review_author_on_heap_def read_keys_keys [OF assms]
      ebind_def strawberry_dataloader_review_author_def)

text \<open>
  The consumer of the DAO on the heap appends to the list \<open>reviews\<close> what the consumer on
  values appends, and raises where that raises.
\<close>

lemma extract_reviews_on_heap:
  "a < length h \<Longrightarrow> h ! a = map VObj acc \<Longrightarrow>
   efoldl (\<lambda>h r.
      ebind (record_getitem r ''r'') (\<lambda>review_relationship.
      ebind (Review_from_relationship review_relationship) (\<lambda>rv.
      Inr (list_append h a (VObj rv))))) h records
     = ebind (efoldl (\<lambda>reviews r.
          ebind (record_getitem r ''r'') (\<lambda>review_relationship.
          ebind (Review_from_relationship review_relationship) (\<lambda>rv.
          Inr (reviews @ [rv])))) acc records)
        (\<lambda>rows. (Inr (h[a := map VObj rows]) :: py_error + (string, neo_review) heap))"
proof (induction records arbitrary: h acc)
  case Nil
  then show ?case
    by (simp add: ebind_def list_update_same_conv [THEN iffD2])
next
  case (Cons r records)
  show ?case
  proof (cases "record_getitem r ''r''")
    case (Inl err)
    then show ?thesis
      by (simp add: ebind_def)
  next
    case (Inr rel)
    show ?thesis
    proof (cases "Review_from_relationship rel")
      case (Inl err)
      with Inr show ?thesis
        by (simp add: ebind_def)
    next
      case rv: (Inr rv)
      from Cons.prems have "a < length (list_append h a (VObj rv))"
        and "list_append h a (VObj rv) ! a = map VObj (acc @ [rv])"
        by (simp_all add: list_append_def)
      from Cons.IH [OF this] Inr rv show ?thesis
        by (simp add: ebind_def list_append_def)
    qed
  qed
qed

lemma get_reviews_of_businesses_on_heap_eq:
  assumes "keys < length h" and "h ! keys = map VKey ks"
  shows "get_reviews_of_businesses_on_heap dao h keys
     = ebind (fst (get_reviews_of_businesses dao ks))
         (\<lambda>rows. Inr (length h, h @ [map VObj rows]))"
proof -
  from assms have "read_keys (h @ [[]]) keys = Inr ks"
    by (intro read_keys_keys) (simp_all add: nth_append)
  moreover have "length h < length (h @ [[]])" and "(h @ [[]]) ! length h = map VObj []"
    by simp_all
  note extract_reviews_on_heap [OF this]
  ultimately show ?thesis
    by (simp add: get_reviews_of_businesses_on_heap_def get_reviews_of_businesses_def
        session_read_def alloc_def ebind_def split: sum.splits)
qed

lemma read_objs_objs:
  "read_objs ((h :: ('k, 'e) heap) @ [map VObj rows]) (length h) = Inr rows"
proof -
  have "those (map as_obj (map VObj rows :: ('k, 'e) pyval list)) = Some rows"
    by (induction rows) simp_all
  then show ?thesis
    by (simp add: read_objs_def)
qed

lemma efoldl_hashed_on_heap:
  "efoldl (\<lambda>dh r. defaultdict_append_hashed_on_heap dh (key r) (VObj r)) dh rs
     = (if \<forall>r\<in>set rs. hashable (key r)
        then Inr (foldl (\<lambda>dh r. defaultdict_append_on_heap dh (key r) (VObj r)) dh rs)
        else Inl TypeError)"
  by (induction rs arbitrary: dh) (simp_all add: defaultdict_append_hashed_on_heap_def ebind_def)

text \<open>
  The graphdb batch function on the heap raises what the function on values raises, and
  where that returns it returns the same lists, having changed no list that existed before.
\<close>

lemma graphdb_reviews_on_heap_raises:
  assumes "keys < length h" and "h ! keys = map VKey ks"
    and "fst (graphdb_dataloader_business_reviews g ks) = Inl err"
  shows "graphdb_dataloader_business_reviews_on_heap g h keys = Inl err"
  using assms(3)
  by (auto simp: graphdb_dataloader_business_reviews_on_heap_def graphdb_reviews_eq
      get_reviews_of_businesses_on_heap_eq [OF assms(1,2)] read_objs_objs efoldl_hashed_on_heap
      ebind_def split: sum.splits if_splits)

lemma graphdb_reviews_on_heap:
  assumes "keys < length h" and "h ! keys = map VKey ks"
    and "fst (graphdb_dataloader_business_reviews g ks) = Inr vals"
  shows "\<exists>res h'. graphdb_dataloader_business_reviews_on_heap g h keys = Inr (res, h')
     \<and> (\<forall>a<length h. h' ! a = h ! a)
     \<and> read_lists h' res = map (map Some) vals"
proof -
  from assms(3) obtain rows where rows:
    "fst (get_reviews_of_businesses (Neo4jDAO g None) ks) = Inr rows"
    "\<forall>r\<in>set rows. hashable (b_id (r_business r))"
    "vals = map (\<lambda>k. filter (\<lambda>r. b_id (r_business r) = PStr k) rows) ks"
    by (auto simp: graphdb_reviews_eq ebind_def split: sum.splits if_splits)
  let ?hs = "h @ [map VObj rows]"
  obtain d h2 where dh:
    "foldl (\<lambda>dh r. defaultdict_append_on_heap dh (b_id (r_business r)) (VObj r))
       (Map.empty, ?hs) rows = (d, h2)"
    by (cases "foldl (\<lambda>dh r. defaultdict_append_on_heap dh (b_id (r_business r)) (VObj r))
       (Map.empty, ?hs) rows")
  obtain res h' where get: "get_each_on_heap (\<lambda>pk. d (PStr pk)) h2 ks = (res, h')"
    by (cases "get_each_on_heap (\<lambda>pk. d (PStr pk)) h2 ks")
  from group_loop [where key = "\<lambda>r. b_id (r_business r)" and hs = ?hs and rows = rows] dh
  have frame: "length ?hs \<le> length h2" "\<forall>a<length ?hs. h2 ! a = ?hs ! a"
    by simp_all
  from frame assms(1,2) have "read_keys h2 keys = Inr ks"
    by (intro read_keys_keys) (simp_all add: nth_append)
  with rows(1,2) dh get
  have run: "graphdb_dataloader_business_reviews_on_heap g h keys = Inr (res, h')"
    by (simp add: graphdb_dataloader_business_reviews_on_heap_def
        get_reviews_of_businesses_on_heap_eq [OF assms(1,2)] read_objs_objs
        efoldl_hashed_on_heap ebind_def)
  from group_then_get_each [OF dh get]
  have "\<forall>a<length ?hs. h' ! a = ?hs ! a"
    and "read_lists h' res
       = map (\<lambda>pk. map Some (filter (\<lambda>r. b_id (r_business r) = PStr pk) rows)) ks"
    by simp_all
  then have "\<forall>a<length h. h' ! a = h ! a" and "read_lists h' res = map (map Some) vals"
    by (simp_all add: nth_append rows(3) comp_def)
  with run show ?thesis
    by blast
qed

text \<open>
  C8. Every batch function leaves the list \<open>keys\<close> it is given as it was. Run on any heap
  in which \<open>keys\<close> refers to a list of keys, each of the six Django functions returns, and
  in the heap it leaves the list \<open>keys\<close> has the same elements in the same order; indeed
  no list that existed before the call has changed, the appends going to lists the
  function made itself. What the function returns, read back from the heap, is what the
  function computes on values. The graphdb function hands \<open>keys\<close> to its DAO and may
  raise: in every run in which it returns, \<open>keys\<close> and every other list that existed
  before the call are as they were and the result read back is the result on values; it
  returns in exactly the runs in which the function on values returns, and raises the same
  exception otherwise.
\<close>

theorem batch_functions_leave_keys_unchanged:
  "(keys < length hr \<and> hr ! keys = map VKey ks \<longrightarrow>
      (\<exists>res h'. ariadne_get_reviews_for_businesses_on_heap q hr keys = Inr (res, h')
         \<and> h' ! keys = map VKey ks \<and> (\<forall>a<length hr. h' ! a = hr ! a)
         \<and> read_lists h' res = map (map Some) (ariadne_get_reviews_for_businesses q ks))
    \<and> (\<exists>res h'. graphene_business_review_data_loader_on_heap q hr keys = Inr (res, h')
         \<and> h' ! keys = map VKey ks \<and> (\<forall>a<length hr. h' ! a = hr ! a)
         \<and> read_lists h' res = map (map Some) (graphene_business_review_data_loader q ks))
    \<and> (\<exists>res h'. strawberry_dataloader_business_reviews_on_heap q hr keys = Inr (res, h')
         \<and> h' ! keys = map VKey ks \<and> (\<forall>a<length hr. h' ! a = hr ! a)
         \<and> read_lists h' res = map (map Some) (strawberry_dataloader_business_reviews q ks)))
   \<and> (keys < length hu \<and> hu ! keys = map VKey ks \<longrightarrow>
      (\<exists>res h'. ariadne_get_authors_for_reviews_on_heap q hu keys = Inr (res, h')
         \<and> h' ! keys = map VKey ks \<and> (\<forall>a<length hu. h' ! a = hu ! a)
         \<and> read_optionals h' res = ariadne_get_authors_for_reviews q ks)
    \<and> (\<exists>res h'. graphene_review_author_data_loader_on_heap q hu keys = Inr (res, h')
         \<and> h' ! keys = map VKey ks \<and> (\<forall>a<length hu. h' ! a = hu ! a)
         \<and> read_optionals h' res = graphene_review_author_data_loader q ks)
    \<and> (\<exists>res h'. strawberry_dataloader_review_author_on_heap q hu keys = Inr (res, h')
         \<and> h' ! keys = map VKey ks \<and> (\<forall>a<length hu. h' ! a = hu ! a)
         \<and> read_optionals h' res = strawberry_dataloader_review_author q ks))
   \<and> (keys < length hg \<and> hg ! keys = map VKey sks \<longrightarrow>
      (\<forall>res h'. graphdb_dataloader_business_reviews_on_heap g hg keys = Inr (res, h') \<longrightarrow>
         h' ! keys = map VKey sks \<and> (\<forall>a<length hg. h' ! a = hg ! a)
         \<and> (\<exists>vals. fst (graphdb_dataloader_business_reviews g sks) = Inr vals
               \<and> read_lists h' res = map (map Some) vals))
    \<and> (\<forall>vals. fst (graphdb_dataloader_business_reviews g sks) = Inr vals \<longrightarrow>
         (\<exists>res h'. graphdb_dataloader_business_reviews_on_heap g hg keys = Inr (res, h')))
    \<and> (\<forall>err. fst (graphdb_dataloader_business_reviews g sks) = Inl err \<longrightarrow>
         graphdb_dataloader_business_reviews_on_heap g hg keys = Inl err))"
proof (intro conjI impI; elim conjE)
  assume k: "keys < length hr" "hr ! keys = map VKey ks"
  from ariadne_reviews_on_heap [OF k, of q] k
  show "\<exists>res h'. ariadne_get_reviews_for_businesses_on_heap q hr keys = Inr (res, h')
         \<and> h' ! keys = map VKey ks \<and> (\<forall>a<length hr. h' ! a = hr ! a)
         \<and> read_lists h' res = map (map Some) (ariadne_get_reviews_for_businesses q ks)"
    by fastforce
  from graphene_reviews_on_heap [OF k, of q] k
  show "\<exists>res h'. graphene_business_review_data_loader_on_heap q hr keys = Inr (res, h')
         \<and> h' ! keys = map VKey ks \<and> (\<forall>a<length hr. h' ! a = hr ! a)
         \<and> read_lists h' res = map (map Some) (graphene_business_review_data_loader q ks)"
    by fastforce
  from strawberry_reviews_on_heap [OF k, of q] k
  show "\<exists>res h'. strawberry_dataloader_business_reviews_on_heap q hr keys = Inr (res, h')
         \<and> h' ! keys = map VKey ks \<and> (\<forall>a<length hr. h' ! a = hr ! a)
         \<and> read_lists h' res = map (map Some) (strawberry_dataloader_business_reviews q ks)"
    by fastforce
next
  assume k: "keys < length hu" "hu ! keys = map VKey ks"
  from ariadne_authors_on_heap [OF k, of q] k
  show "\<exists>res h'. ariadne_get_authors_for_reviews_on_heap q hu keys = Inr (res, h')
         \<and> h' ! keys = map VKey ks \<and> (\<forall>a<length hu. h' ! a = hu ! a)
         \<and> read_optionals h' res = ariadne_get_authors_for_reviews q ks"
    by fastforce
  from graphene_authors_on_heap [OF k, of q] k
  show "\<exists>res h'. graphene_review_author_data_loader_on_heap q hu keys = Inr (res, h')
         \<and> h' ! keys = map VKey ks \<and> (\<forall>a<length hu. h' ! a = hu ! a)
         \<and> read_optionals h' res = graphene_review_author_data_loader q ks"
    by fastforce
  from strawberry_authors_on_heap [OF k, of q] k
  show "\<exists>res h'. strawberry_dataloader_review_author_on_heap q hu keys = Inr (res, h')
         \<and> h' ! keys = map VKey ks \<and> (\<forall>a<length hu. h' ! a = hu ! a)
         \<and> read_optionals h' res = strawberry_dataloader_review_author q ks"
    by fastforce
next
  assume k: "keys < length hg" "hg ! keys = map VKey sks"
  show "\<forall>res h'. graphdb_dataloader_business_reviews_on_heap g hg keys = Inr (res, h') \<longrightarrow>
         h' ! keys = map VKey sks \<and> (\<forall>a<length hg. h' ! a = hg ! a)
         \<and> (\<exists>vals. fst (graphdb_dataloader_business_reviews g sks) = Inr vals
               \<and> read_lists h' res = map (map Some) vals)"
  proof (intro allI impI)
    fix res h'
    assume run: "graphdb_dataloader_business_reviews_on_heap g hg keys = Inr (res, h')"
    show "h' ! keys = map VKey sks \<and> (\<forall>a<length hg. h' ! a = hg ! a)
         \<and> (\<exists>vals. fst (graphdb_dataloader_business_reviews g sks) = Inr vals
               \<and> read_lists h' res = map (map Some) vals)"
    proof (cases "fst (graphdb_dataloader_business_reviews g sks)")
      case (Inl err)
      from graphdb_reviews_on_heap_raises [OF k Inl] run show ?thesis
        by simp
    next
      case (Inr vals)
      from graphdb_reviews_on_heap [OF k Inr] obtain res2 h2 where same:
        "graphdb_dataloader_business_reviews_on_heap g hg keys = Inr (res2, h2)"
        "\<forall>a<length hg. h2 ! a = hg ! a" "read_lists h2 res2 = map (map Some) vals"
        by (elim exE conjE) (rule that)
      from same(1) run have "res2 = res" and "h2 = h'"
        by simp_all
      with same(2,3) k Inr show ?thesis
        by simp
    qed
  qed
  from graphdb_reviews_on_heap [OF k]
  show "\<forall>vals. fst (graphdb_dataloader_business_reviews g sks) = Inr vals \<longrightarrow>
         (\<exists>res h'. graphdb_dataloader_business_reviews_on_heap g hg keys = Inr (res, h'))"
    by blast
  from graphdb_reviews_on_heap_raises [OF k]
  show "\<forall>err. fst (graphdb_dataloader_business_reviews g sks) = Inl err \<longrightarrow>
         graphdb_dataloader_business_reviews_on_heap g hg keys = Inl err"
    by blast
qed

theorem batch_functions_leave_keys_unchanged_witness:
  "(\<exists>res h'. graphene_business_review_data_loader_on_heap seed_filter_business_id_in
                [[VKey 7], [VKey 1, VKey 3, VKey 1]] 1 = Inr (res, h')
       \<and> h' ! 1 = [VKey 1, VKey 3, VKey 1] \<and> h' ! 0 = [VKey 7]
       \<and> map (map (map_option review_id)) (read_lists h' res)
           = [[Some 1, Some 2], [], [Some 1, Some 2]])
   \<and> (\<exists>res h'. strawberry_dataloader_review_author_on_heap seed_filter_id_in
                [[VKey 4, VKey 9, VKey 1]] 0 = Inr (res, h')
       \<and> h' ! 0 = [VKey 4, VKey 9, VKey 1]
       \<and> read_optionals h' res = [Some van, None, Some emma])
   \<and> (\<exists>res h'. graphdb_dataloader_business_reviews_on_heap seed_service
                [[VKey ''zz'', VKey ''9a96caca'', VKey ''zz'']] 0 = Inr (res, h')
       \<and> h' ! 0 = [VKey ''zz'', VKey ''9a96caca'', VKey ''zz'']
       \<and> read_lists h' res = [[], [Some van_joes_review, Some emma_joes_review], []])
   \<and> (\<exists>res h'. graphdb_dataloader_business_reviews_on_heap bare_service
                [[VKey ''aa''], [VKey ''zz'']] 1 = Inr (res, h')
       \<and> h' ! 1 = [VKey ''zz''] \<and> h' ! 0 = [VKey ''aa'']
       \<and> read_lists h' res = [[]])
   \<and> graphdb_dataloader_business_reviews_on_heap listed_service [[VKey ''9a96caca'']] 0
       = Inl TypeError"
proof -
  let ?hr = "[[VKey 7], [VKey 1, VKey 3, VKey 1]] :: (int, django_review) heap"
  let ?hu = "[[VKey 4, VKey 9, VKey 1]] :: (int, django_user) heap"
  let ?hg = "[[VKey ''zz'', VKey ''9a96caca'', VKey ''zz'']] :: (string, neo_review) heap"
  let ?hb = "[[VKey ''aa''], [VKey ''zz'']] :: (string, neo_review) heap"
  let ?hl = "[[VKey ''9a96caca'']] :: (string, neo_review) heap"
  have kr: "1 < length ?hr \<and> ?hr ! 1 = map VKey [1, 3, 1]"
    by simp
  have ku: "0 < length ?hu \<and> ?hu ! 0 = map VKey [4, 9, 1]"
    by simp
  have kg: "0 < length ?hg \<and> ?hg ! 0 = map VKey [''zz'', ''9a96caca'', ''zz'']"
    by simp
  have kb: "1 < length ?hb \<and> ?hb ! 1 = map VKey [''zz'']"
    by simp
  have kl: "0 < length ?hl \<and> ?hl ! 0 = map VKey [''9a96caca'']"
    by simp
  note reviews = batch_functions_leave_keys_unchanged
    [where keys = 1 and hr = ?hr and ks = "[1, 3, 1]" and q = seed_filter_business_id_in,
      THEN conjunct1, THEN mp, OF kr, THEN conjunct2, THEN conjunct1]
  note authors = batch_functions_leave_keys_unchanged
    [where keys = 0 and hu = ?hu and ks = "[4, 9, 1]" and q = seed_filter_id_in,
      THEN conjunct2, THEN conjunct1, THEN mp, OF ku, THEN conjunct2, THEN conjunct2]
  note graph = batch_functions_leave_keys_unchanged
    [where keys = 0 and hg = ?hg and sks = "[''zz'', ''9a96caca'', ''zz'']" and g = seed_service,
      THEN conjunct2, THEN conjunct2, THEN mp, OF kg]
  note bare = batch_functions_leave_keys_unchanged
    [where keys = 1 and hg = ?hb and sks = "[''zz'']" and g = bare_service,
      THEN conjunct2, THEN conjunct2, THEN mp, OF kb]
  note listed = batch_functions_leave_keys_unchanged
    [where keys = 0 and hg = ?hl and sks = "[''9a96caca'']" and g = listed_service,
      THEN conjunct2, THEN conjunct2, THEN mp, OF kl, THEN conjunct2, THEN conjunct2,
      rule_format, OF listed_graph_batch]
  from reviews obtain res h' where r:
    "graphene_business_review_data_loader_on_heap seed_filter_business_id_in ?hr 1 = Inr (res, h')"
    "h' ! 1 = map VKey [1, 3, 1]" "\<forall>a<length ?hr. h' ! a = ?hr ! a"
    "read_lists h' res
       = map (map Some) (graphene_business_review_data_loader seed_filter_business_id_in [1, 3, 1])"
    by (elim exE conjE) (rule that)
  from r(3) have r0: "h' ! 0 = [VKey 7]"
    by simp
  from r(4) have rv: "map (map (map_option review_id)) (read_lists h' res)
      = [[Some 1, Some 2], [], [Some 1, Some 2]]"
    by (simp add: graphene_reviews_eq seed_row_defs)
  have first: "\<exists>res h'. graphene_business_review_data_loader_on_heap seed_filter_business_id_in
                [[VKey 7], [VKey 1, VKey 3, VKey 1]] 1 = Inr (res, h')
       \<and> h' ! 1 = [VKey 1, VKey 3, VKey 1] \<and> h' ! 0 = [VKey 7]
       \<and> map (map (map_option review_id)) (read_lists h' res)
           = [[Some 1, Some 2], [], [Some 1, Some 2]]"
    using r(1,2) r0 rv by (intro exI [of _ res] exI [of _ h']) simp
  from authors obtain ures uh where u:
    "strawberry_dataloader_review_author_on_heap seed_filter_id_in ?hu 0 = Inr (ures, uh)"
    "uh ! 0 = map VKey [4, 9, 1]" "\<forall>a<length ?hu. uh ! a = ?hu ! a"
    "read_optionals uh ures = strawberry_dataloader_review_author seed_filter_id_in [4, 9, 1]"
    by (elim exE conjE) (rule that)
  from u(4) have uv: "read_optionals uh ures = [Some van, None, Some emma]"
    by (simp add: strawberry_authors_eq seed_row_defs)
  have second: "\<exists>res h'. strawberry_dataloader_review_author_on_heap seed_filter_id_in
                [[VKey 4, VKey 9, VKey 1]] 0 = Inr (res, h')
       \<and> h' ! 0 = [VKey 4, VKey 9, VKey 1]
       \<and> read_optionals h' res = [Some van, None, Some emma]"
    using u(1,2) uv by (intro exI [of _ ures] exI [of _ uh]) simp
  from graph [THEN conjunct2, THEN conjunct1, rule_format, OF seed_graph_batch]
  obtain gres gh where grun:
    "graphdb_dataloader_business_reviews_on_heap seed_service ?hg 0 = Inr (gres, gh)"
    by (elim exE) (rule that)
  from graph [THEN conjunct1, rule_format, OF grun] obtain vals where g:
    "gh ! 0 = map VKey [''zz'', ''9a96caca'', ''zz'']"
    "fst (graphdb_dataloader_business_reviews seed_service [''zz'', ''9a96caca'', ''zz'']) = Inr vals"
    "read_lists gh gres = map (map Some) vals"
    by (elim exE conjE) (rule that)
  from g(2) have "vals = [[], [van_joes_review, emma_joes_review], []]"
    by (simp add: seed_graph_batch)
  with g(3) have gv: "read_lists gh gres = [[], [Some van_joes_review, Some emma_joes_review], []]"
    by simp
  have third: "\<exists>res h'. graphdb_dataloader_business_reviews_on_heap seed_service
                [[VKey ''zz'', VKey ''9a96caca'', VKey ''zz'']] 0 = Inr (res, h')
       \<and> h' ! 0 = [VKey ''zz'', VKey ''9a96caca'', VKey ''zz'']
       \<and> read_lists h' res = [[], [Some van_joes_review, Some emma_joes_review], []]"
    using grun g(1) gv by (intro exI [of _ gres] exI [of _ gh]) simp
  from bare [THEN conjunct2, THEN conjunct1, rule_format, OF bare_graph_batch]
  obtain bres bh where brun:
    "graphdb_dataloader_business_reviews_on_heap bare_service ?hb 1 = Inr (bres, bh)"
    by (elim exE) (rule that)
  from bare [THEN conjunct1, rule_format, OF brun] obtain bvals where b:
    "bh ! 1 = map VKey [''zz'']" "\<forall>a<length ?hb. bh ! a = ?hb ! a"
    "fst (graphdb_dataloader_business_reviews bare_service [''zz'']) = Inr bvals"
    "read_lists bh bres = map (map Some) bvals"
    by (elim exE conjE) (rule that)
  from b(2) have b0: "bh ! 0 = [VKey ''aa'']"
    by simp
  from b(3) have "bvals = [[]]"
    by (simp add: bare_graph_batch)
  with b(4) have bv: "read_lists bh bres = [[]]"
    by simp
  have fourth: "\<exists>res h'. graphdb_dataloader_business_reviews_on_heap bare_service
                [[VKey ''aa''], [VKey ''zz'']] 1 = Inr (res, h')
       \<and> h' ! 1 = [VKey ''zz''] \<and> h' ! 0 = [VKey ''aa'']
       \<and> read_lists h' res = [[]]"
    using brun b(1) b0 bv by (intro exI [of _ bres] exI [of _ bh]) simp
  from first second third fourth listed show ?thesis
    by (intro conjI)
qed


end
